theory Spec2Isabelle
  imports Main
begin

section \<open>Report model (main.go, lines 28--67)\<close>

text \<open>
  Go strings are byte sequences; they are modelled as \<^typ>\<open>string\<close> (a list of 8-bit
  characters).  A nil pointer is \<^term>\<open>None\<close>.  Field names carry the name of their struct
  as a prefix where two structs of main.go use the same field name.
\<close>

type_synonym bytes = string

record Failure =
  Failure_Message :: string
  Failure_Type :: string
  Failure_Content :: string

record Error =
  Error_Message :: string
  Error_Type :: string
  Error_Content :: string

record Skipped =
  Skipped_Message :: string

record TestCase =
  TestCase_Name :: string
  TestCase_Classname :: string
  TestCase_Time :: string
  TestCase_Failure :: "Failure option"
  TestCase_Error :: "Error option"
  TestCase_Skipped :: "Skipped option"

record TestSuite =
  TestSuite_Name :: string
  Tests :: int
  Failures :: int
  Errors :: int
  TestSuite_Skipped :: int
  TestSuite_Time :: string
  Timestamp :: string
  TestCases :: "TestCase list"

record TestSuites =
  XMLName :: string
  TestSuites_TestSuites :: "TestSuite list"

section \<open>Wire model (main.go, lines 69--108)\<close>

record Label =
  Key :: string
  Value :: string

text \<open>
  A decoded JSON value (\<open>any\<close> in \<open>map[string]any\<close>); numbers keep their literal.
  A \<open>map[string]any\<close> is an association list, the nil map is \<^term>\<open>None\<close>.
\<close>

datatype json =
  JNull
| JBool bool
| JNumber string
| JString string
| JArray "json list"
| JObject "(string \<times> json) list"

type_synonym baggage = "(string \<times> json) list option"

record SessionRequest =
  SessionRequest_Id :: string
  Description :: string
  Labels :: "Label list"
  SessionRequest_Baggage :: baggage

record SessionResponse =
  SessionResponse_Id :: string

record TestcaseRequest =
  SessionId :: string
  TestcaseName :: string
  TestcaseClassname :: string
  TestcaseFile :: string
  Testsuite :: string
  Status :: string
  Output :: string
  TestcaseRequest_Baggage :: baggage

record TestcasesRequest =
  Testcases :: "TestcaseRequest list"

text \<open>The \<open>client\<close> field of the Go struct is the transport of the environment below.\<close>

record Reporter =
  endpoint :: string
  apiKey :: string
  sessionId :: string
  sessionDescription :: string
  sessionLabels :: "Label list"
  sessionBaggage :: baggage

section \<open>The normalizer: the loops of \<open>submitResults\<close> (main.go, lines 199--226)\<close>

text \<open>\<open>fmt.Sprintf("Failure: %s\n%s", m, c)\<close> and its sibling for errors.\<close>

definition sprintf_Failure :: "string \<Rightarrow> string \<Rightarrow> string" where
  "sprintf_Failure m c = ''Failure: '' @ m @ [CHR 0x0A] @ c"

definition sprintf_Error :: "string \<Rightarrow> string \<Rightarrow> string" where
  "sprintf_Error m c = ''Error: '' @ m @ [CHR 0x0A] @ c"

text \<open>Lines 203--215: the status and the output of one case, as a pair.\<close>

definition statusOutput :: "TestCase \<Rightarrow> string \<times> string" where
  "statusOutput tc =
     (case TestCase_Failure tc of
        Some f \<Rightarrow> (''fail'', sprintf_Failure (Failure_Message f) (Failure_Content f))
      | None \<Rightarrow>
          (case TestCase_Error tc of
             Some e \<Rightarrow> (''error'', sprintf_Error (Error_Message e) (Error_Content e))
           | None \<Rightarrow>
               (case TestCase_Skipped tc of
                  Some s \<Rightarrow> (''skip'', Skipped_Message s)
                | None \<Rightarrow> (''pass'', ''''))))"

text \<open>Lines 217--224: the record appended for one case; unset fields are Go zero values.\<close>

definition testcaseRequest :: "Reporter \<Rightarrow> TestSuite \<Rightarrow> TestCase \<Rightarrow> TestcaseRequest" where
  "testcaseRequest r suite tc =
     \<lparr> SessionId = sessionId r,
       TestcaseName = TestCase_Name tc,
       TestcaseClassname = TestCase_Classname tc,
       TestcaseFile = '''',
       Testsuite = TestSuite_Name suite,
       Status = fst (statusOutput tc),
       Output = snd (statusOutput tc),
       TestcaseRequest_Baggage = None \<rparr>"

text \<open>The inner loop over \<open>suite.TestCases\<close>, appending to the slice \<open>testcases\<close>.\<close>

fun casesLoop ::
  "Reporter \<Rightarrow> TestSuite \<Rightarrow> TestCase list \<Rightarrow> TestcaseRequest list \<Rightarrow> TestcaseRequest list" where
  "casesLoop r suite [] testcases = testcases"
| "casesLoop r suite (tc # tcs) testcases =
     casesLoop r suite tcs (testcases @ [testcaseRequest r suite tc])"

text \<open>The outer loop over \<open>testsuites.TestSuites\<close>.\<close>

fun suitesLoop :: "Reporter \<Rightarrow> TestSuite list \<Rightarrow> TestcaseRequest list \<Rightarrow> TestcaseRequest list" where
  "suitesLoop r [] testcases = testcases"
| "suitesLoop r (suite # suites) testcases =
     suitesLoop r suites (casesLoop r suite (TestCases suite) testcases)"

definition buildTestcases :: "Reporter \<Rightarrow> TestSuites \<Rightarrow> TestcaseRequest list" where
  "buildTestcases r testsuites = suitesLoop r (TestSuites_TestSuites testsuites) []"

text \<open>The cases of a report with their suites, in document order.\<close>

definition allCases :: "TestSuites \<Rightarrow> (TestSuite \<times> TestCase) list" where
  "allCases testsuites =
     concat (map (\<lambda>suite. map (Pair suite) (TestCases suite)) (TestSuites_TestSuites testsuites))"

definition caseCount :: "TestSuites \<Rightarrow> nat" where
  "caseCount testsuites = sum_list (map (\<lambda>suite. length (TestCases suite)) (TestSuites_TestSuites testsuites))"

section \<open>The string functions of package \<open>strings\<close> that main.go calls\<close>

text \<open>\<open>strings.HasPrefix\<close>, \<open>strings.HasSuffix\<close> and \<open>strings.TrimSuffix\<close>.\<close>

definition HasPrefix :: "string \<Rightarrow> string \<Rightarrow> bool" where
  "HasPrefix s prefix = (length prefix \<le> length s \<and> take (length prefix) s = prefix)"

definition HasSuffix :: "string \<Rightarrow> string \<Rightarrow> bool" where
  "HasSuffix s suffix =
     (length suffix \<le> length s \<and> drop (length s - length suffix) s = suffix)"

definition TrimSuffix :: "string \<Rightarrow> string \<Rightarrow> string" where
  "TrimSuffix s suffix =
     (if HasSuffix s suffix then take (length s - length suffix) s else s)"

text \<open>
  \<open>strings.TrimSpace\<close> removes, at both ends, the runes for which \<open>unicode.IsSpace\<close>
  holds.  On the bytes of the string these are the UTF-8 encodings of U+0009--U+000D,
  U+0020, U+0085, U+00A0, U+1680, U+2000--U+200A, U+2028, U+2029, U+202F, U+205F and
  U+3000.  Any other byte sequence at an end, valid UTF-8 or not, decodes to a rune that
  is not a space and stops the trimming.
\<close>

definition whiteSpace :: "string list" where
  "whiteSpace =
     [[CHR 0x09], [CHR 0x0A], [CHR 0x0B], [CHR 0x0C], [CHR 0x0D], [CHR 0x20],
      [CHR 0xC2, CHR 0x85], [CHR 0xC2, CHR 0xA0],
      [CHR 0xE1, CHR 0x9A, CHR 0x80],
      [CHR 0xE2, CHR 0x80, CHR 0x80], [CHR 0xE2, CHR 0x80, CHR 0x81],
      [CHR 0xE2, CHR 0x80, CHR 0x82], [CHR 0xE2, CHR 0x80, CHR 0x83],
      [CHR 0xE2, CHR 0x80, CHR 0x84], [CHR 0xE2, CHR 0x80, CHR 0x85],
      [CHR 0xE2, CHR 0x80, CHR 0x86], [CHR 0xE2, CHR 0x80, CHR 0x87],
      [CHR 0xE2, CHR 0x80, CHR 0x88], [CHR 0xE2, CHR 0x80, CHR 0x89],
      [CHR 0xE2, CHR 0x80, CHR 0x8A],
      [CHR 0xE2, CHR 0x80, CHR 0xA8], [CHR 0xE2, CHR 0x80, CHR 0xA9],
      [CHR 0xE2, CHR 0x80, CHR 0xAF],
      [CHR 0xE2, CHR 0x81, CHR 0x9F],
      [CHR 0xE3, CHR 0x80, CHR 0x80]]"

text \<open>The width in bytes of the space rune a string starts (ends) with; 0 when there is none.\<close>

definition leadingSpace :: "string \<Rightarrow> nat" where
  "leadingSpace s = (case find (HasPrefix s) whiteSpace of Some e \<Rightarrow> length e | None \<Rightarrow> 0)"

definition trailingSpace :: "string \<Rightarrow> nat" where
  "trailingSpace s = (case find (HasSuffix s) whiteSpace of Some e \<Rightarrow> length e | None \<Rightarrow> 0)"

lemma leadingSpace_le: "leadingSpace s \<le> length s"
  by (auto simp: leadingSpace_def HasPrefix_def split: option.splits
      dest: find_Some_iff[THEN iffD1])

lemma trailingSpace_le: "trailingSpace s \<le> length s"
  by (auto simp: trailingSpace_def HasSuffix_def split: option.splits
      dest: find_Some_iff[THEN iffD1])

function TrimLeft :: "string \<Rightarrow> string" where
  "TrimLeft s = (if leadingSpace s = 0 then s else TrimLeft (drop (leadingSpace s) s))"
  by pat_completeness auto
termination
proof (relation "measure length")
  fix s assume "leadingSpace s \<noteq> 0"
  moreover have "leadingSpace s \<le> length s" by (rule leadingSpace_le)
  ultimately show "(drop (leadingSpace s) s, s) \<in> measure length" by simp
qed simp

declare TrimLeft.simps [simp del]

function TrimRight :: "string \<Rightarrow> string" where
  "TrimRight s =
     (if trailingSpace s = 0 then s else TrimRight (take (length s - trailingSpace s) s))"
  by pat_completeness auto
termination
proof (relation "measure length")
  fix s assume "trailingSpace s \<noteq> 0"
  moreover have "trailingSpace s \<le> length s" by (rule trailingSpace_le)
  ultimately show "(take (length s - trailingSpace s) s, s) \<in> measure length" by simp
qed simp

declare TrimRight.simps [simp del]

definition TrimSpace :: "string \<Rightarrow> string" where
  "TrimSpace s = TrimRight (TrimLeft s)"

text \<open>
  \<open>strings.SplitSeq(s, sep)\<close> for a separator of one byte: while the separator occurs,
  yield the text before its first occurrence and go on after it; yield the rest last.
\<close>

function SplitSeq :: "string \<Rightarrow> char \<Rightarrow> string list" where
  "SplitSeq s sep =
     (if sep \<in> set s
      then takeWhile (\<lambda>c. c \<noteq> sep) s # SplitSeq (tl (dropWhile (\<lambda>c. c \<noteq> sep) s)) sep
      else [s])"
  by pat_completeness auto
termination
proof (relation "measure (\<lambda>(s, sep). length s)")
  fix s :: string and sep assume "sep \<in> set s"
  then have "dropWhile (\<lambda>c. c \<noteq> sep) s \<noteq> []" by simp
  then have "length (tl (dropWhile (\<lambda>c. c \<noteq> sep) s)) < length (dropWhile (\<lambda>c. c \<noteq> sep) s)"
    by (cases "dropWhile (\<lambda>c. c \<noteq> sep) s") simp_all
  also have "\<dots> \<le> length s" by (rule length_dropWhile_le)
  finally show "((tl (dropWhile (\<lambda>c. c \<noteq> sep) s), sep), (s, sep)) \<in> measure (\<lambda>(s, sep). length s)"
    by simp
qed simp

declare SplitSeq.simps [simp del]

text \<open>\<open>strings.Cut(s, sep)\<close> for a separator of one byte: \<open>(before, after, found)\<close>.\<close>

definition Cut :: "string \<Rightarrow> char \<Rightarrow> string \<times> string \<times> bool" where
  "Cut s sep =
     (if sep \<in> set s
      then (takeWhile (\<lambda>c. c \<noteq> sep) s, tl (dropWhile (\<lambda>c. c \<noteq> sep) s), True)
      else (s, '''', False))"

section \<open>\<open>NewReporter\<close> and \<open>parseLabels\<close> (main.go, lines 110--150)\<close>

definition NewReporter ::
  "string \<Rightarrow> string \<Rightarrow> string \<Rightarrow> string \<Rightarrow> Label list \<Rightarrow> baggage \<Rightarrow> Reporter" where
  "NewReporter endpoint' apiKey' sessionID sessionDescription' sessionLabels' sessionBaggage' =
     \<lparr> endpoint = TrimSuffix endpoint' ''/'',
       apiKey = apiKey',
       sessionId = sessionID,
       sessionDescription = sessionDescription',
       sessionLabels = sessionLabels',
       sessionBaggage = sessionBaggage' \<rparr>"

text \<open>The body of the loop of \<open>parseLabels\<close> (lines 133--147) for one token.\<close>

definition labelStep :: "Label list \<Rightarrow> string \<Rightarrow> Label list" where
  "labelStep labels labelStr0 =
     (let labelStr = TrimSpace labelStr0 in
      if labelStr = '''' then labels
      else (case Cut labelStr (CHR ''='') of
              (before, after, ok) \<Rightarrow>
                if ok then labels @ [\<lparr> Key = before, Value = after \<rparr>]
                else labels @ [\<lparr> Key = labelStr, Value = '''' \<rparr>]))"

fun labelsLoop :: "string list \<Rightarrow> Label list \<Rightarrow> Label list" where
  "labelsLoop [] labels = labels"
| "labelsLoop (labelStr # rest) labels = labelsLoop rest (labelStep labels labelStr)"

text \<open>The nil slice and the empty slice are both \<^term>\<open>[]\<close>.\<close>

definition parseLabels :: "string \<Rightarrow> Label list" where
  "parseLabels labelsStr =
     (if labelsStr = '''' then [] else labelsLoop (SplitSeq labelsStr (CHR '','')) [])"

text \<open>
  The description of the label syntax in words: split on commas, trim each token, drop
  the blank ones, and read each remaining token as \<open>key\<close> or as \<open>key=value\<close>, split at its
  first \<open>=\<close>.
\<close>

definition tokenLabel :: "string \<Rightarrow> Label" where
  "tokenLabel t =
     (if CHR ''='' \<in> set t
      then \<lparr> Key = takeWhile (\<lambda>c. c \<noteq> CHR ''='') t,
             Value = drop (Suc (length (takeWhile (\<lambda>c. c \<noteq> CHR ''='') t))) t \<rparr>
      else \<lparr> Key = t, Value = '''' \<rparr>)"

definition labels_of_words :: "string \<Rightarrow> Label list" where
  "labels_of_words labelsStr =
     map tokenLabel (filter (\<lambda>t. t \<noteq> '''') (map TrimSpace (SplitSeq labelsStr (CHR '',''))))"

section \<open>Errors\<close>

text \<open>
  Go error values.  \<open>LibError m\<close> is an error returned by a library call of the
  environment, with its message; \<open>Wrap l e\<close> is \<open>fmt.Errorf("l: %w", e)\<close>;
  \<open>StatusError l status body\<close> is \<open>fmt.Errorf("l: status=%d body=%s", status, body)\<close>;
  \<open>ExpectedElement want have\<close> is the \<open>xml.UnmarshalError\<close> "expected element type
  <want> but have <have>"; \<open>NumError num reason\<close> is the \<open>strconv.NumError\<close> of
  \<open>strconv.ParseInt\<close> on \<open>num\<close>.
\<close>

datatype error =
  LibError string
| Wrap string error
| StatusError string int bytes
| ExpectedElement string string
| NumError string string

section \<open>Decoding the report: \<open>xml.Unmarshal\<close> into the structs of main.go\<close>

text \<open>
  An XML document after tokenization: an element has a local name, its attributes in
  document order, and its children (elements and character data; comments, processing
  instructions and directives are dropped, as the decoder skips them).
\<close>

datatype xml_node =
  Element string "(string \<times> string) list" "xml_node list"
| CharData string

definition isDigit :: "char \<Rightarrow> bool" where
  "isDigit c = (48 \<le> (of_char c :: nat) \<and> (of_char c :: nat) \<le> 57)"


text \<open>
  \<open>strconv.ParseUint(s, 10, 64)\<close>, as a pair of the value and the reason of the error, if
  any.  The bytes are read from the left: a byte that is not a decimal digit is a syntax
  error; a digit that would take the value beyond \<open>2\<^sup>6\<^sup>4 - 1\<close> is a range error, with that
  maximum as the value.  Whichever comes first decides, so digits that overflow before a
  byte that is not a digit give a range error.  The empty string is a syntax error.
\<close>

definition maxUint64 :: int where
  "maxUint64 = 2 ^ 64 - 1"

fun parseUintLoop :: "int \<Rightarrow> string \<Rightarrow> int \<times> string option" where
  "parseUintLoop n [] = (n, None)"
| "parseUintLoop n (c # cs) =
     (if isDigit c
      then (if n \<ge> maxUint64 div 10 + 1 then (maxUint64, Some ''value out of range'')
            else if 10 * n + (of_char c - 48) > maxUint64
            then (maxUint64, Some ''value out of range'')
            else parseUintLoop (10 * n + (of_char c - 48)) cs)
      else (0, Some ''invalid syntax''))"

definition ParseUint :: "string \<Rightarrow> int \<times> string option" where
  "ParseUint s = (if s = '''' then (0, Some ''invalid syntax'') else parseUintLoop 0 s)"

text \<open>
  \<open>strconv.ParseInt(s, 10, 64)\<close> (Go's \<open>int\<close> has 64 bits on a 64-bit platform): the
  empty string is a syntax error; a leading \<open>+\<close> or \<open>-\<close> is taken off and the rest
  goes through \<open>ParseUint\<close>; a syntax error of \<open>ParseUint\<close> is returned, and otherwise
  (also after its range error) the value is checked against \<open>2\<^sup>6\<^sup>3\<close> and negated for
  \<open>-\<close>.  The error names the whole string \<open>s\<close>.
\<close>

definition signedValue :: "string \<Rightarrow> bool \<Rightarrow> int \<Rightarrow> error + int" where
  "signedValue s0 neg un =
     (if neg
      then (if un > 2 ^ 63 then Inl (NumError s0 ''value out of range'') else Inr (- un))
      else (if un \<ge> 2 ^ 63 then Inl (NumError s0 ''value out of range'') else Inr un))"

definition checkRange :: "string \<Rightarrow> bool \<Rightarrow> int \<times> string option \<Rightarrow> error + int" where
  "checkRange s0 neg r =
     (case r of
        (un, Some reason) \<Rightarrow>
          if reason = ''value out of range'' then signedValue s0 neg un
          else Inl (NumError s0 reason)
      | (un, None) \<Rightarrow> signedValue s0 neg un)"

definition ParseInt :: "string \<Rightarrow> error + int" where
  "ParseInt s =
     (if s = '''' then Inl (NumError s ''invalid syntax'')
      else checkRange s (take 1 s = ''-'')
             (ParseUint (if take 1 s = ''+'' then drop 1 s
                         else if take 1 s = ''-'' then drop 1 s else s)))"

text \<open>
  \<open>copyValue\<close> of encoding/xml for a destination of kind \<open>int\<close>, which is how an
  attribute is stored into the fields \<open>Tests\<close>, \<open>Failures\<close>, \<open>Errors\<close> and \<open>Skipped\<close>
  of \<open>TestSuite\<close>: empty text is 0, other text goes through \<open>strconv.ParseInt\<close> after
  \<open>strings.TrimSpace\<close>, and its error is the error of the whole \<open>Unmarshal\<close>.  For a
  destination of kind \<open>string\<close> the text is stored as it is.
\<close>

definition copyValue_int :: "string \<Rightarrow> error + int" where
  "copyValue_int src = (if src = '''' then Inr 0 else ParseInt (TrimSpace src))"

text \<open>The character data directly inside an element (a field tagged \<open>,chardata\<close>).\<close>

definition chardata :: "xml_node list \<Rightarrow> string" where
  "chardata ns = concat (map (\<lambda>n. case n of CharData s \<Rightarrow> s | Element _ _ _ \<Rightarrow> '''') ns)"

definition zeroFailure :: Failure where
  "zeroFailure = \<lparr> Failure_Message = '''', Failure_Type = '''', Failure_Content = '''' \<rparr>"

definition zeroError :: Error where
  "zeroError = \<lparr> Error_Message = '''', Error_Type = '''', Error_Content = '''' \<rparr>"

definition zeroSkipped :: Skipped where
  "zeroSkipped = \<lparr> Skipped_Message = '''' \<rparr>"

definition zeroTestCase :: TestCase where
  "zeroTestCase =
     \<lparr> TestCase_Name = '''', TestCase_Classname = '''', TestCase_Time = '''',
       TestCase_Failure = None, TestCase_Error = None, TestCase_Skipped = None \<rparr>"

definition zeroTestSuite :: TestSuite where
  "zeroTestSuite =
     \<lparr> TestSuite_Name = '''', Tests = 0, Failures = 0, Errors = 0, TestSuite_Skipped = 0,
       TestSuite_Time = '''', Timestamp = '''', TestCases = [] \<rparr>"

text \<open>
  Decoding an element into a struct: each attribute, in order, is stored into the field
  tagged \<open>name,attr\<close> with its name; then each child element is decoded into the field
  tagged with its name, and a child that no field names is skipped.  A pointer field that
  is already set is decoded into again.
\<close>

definition attrFailure :: "Failure \<Rightarrow> string \<times> string \<Rightarrow> Failure" where
  "attrFailure f a =
     (if fst a = ''message'' then f\<lparr>Failure_Message := snd a\<rparr>
      else if fst a = ''type'' then f\<lparr>Failure_Type := snd a\<rparr>
      else f)"

definition unmarshalFailure ::
  "Failure \<Rightarrow> (string \<times> string) list \<Rightarrow> xml_node list \<Rightarrow> Failure" where
  "unmarshalFailure dst as ns = (foldl attrFailure dst as)\<lparr>Failure_Content := chardata ns\<rparr>"

definition attrError :: "Error \<Rightarrow> string \<times> string \<Rightarrow> Error" where
  "attrError f a =
     (if fst a = ''message'' then f\<lparr>Error_Message := snd a\<rparr>
      else if fst a = ''type'' then f\<lparr>Error_Type := snd a\<rparr>
      else f)"

definition unmarshalError ::
  "Error \<Rightarrow> (string \<times> string) list \<Rightarrow> xml_node list \<Rightarrow> Error" where
  "unmarshalError dst as ns = (foldl attrError dst as)\<lparr>Error_Content := chardata ns\<rparr>"

definition attrSkipped :: "Skipped \<Rightarrow> string \<times> string \<Rightarrow> Skipped" where
  "attrSkipped f a = (if fst a = ''message'' then f\<lparr>Skipped_Message := snd a\<rparr> else f)"

definition unmarshalSkipped :: "Skipped \<Rightarrow> (string \<times> string) list \<Rightarrow> Skipped" where
  "unmarshalSkipped dst as = foldl attrSkipped dst as"

definition attrTestCase :: "TestCase \<Rightarrow> string \<times> string \<Rightarrow> TestCase" where
  "attrTestCase tc a =
     (if fst a = ''name'' then tc\<lparr>TestCase_Name := snd a\<rparr>
      else if fst a = ''classname'' then tc\<lparr>TestCase_Classname := snd a\<rparr>
      else if fst a = ''time'' then tc\<lparr>TestCase_Time := snd a\<rparr>
      else tc)"

definition childTestCase :: "TestCase \<Rightarrow> xml_node \<Rightarrow> TestCase" where
  "childTestCase tc n =
     (case n of
        CharData _ \<Rightarrow> tc
      | Element name as ns \<Rightarrow>
          if name = ''failure''
          then tc\<lparr>TestCase_Failure :=
                 Some (unmarshalFailure
                   (case TestCase_Failure tc of None \<Rightarrow> zeroFailure | Some f \<Rightarrow> f) as ns)\<rparr>
          else if name = ''error''
          then tc\<lparr>TestCase_Error :=
                 Some (unmarshalError
                   (case TestCase_Error tc of None \<Rightarrow> zeroError | Some f \<Rightarrow> f) as ns)\<rparr>
          else if name = ''skipped''
          then tc\<lparr>TestCase_Skipped :=
                 Some (unmarshalSkipped
                   (case TestCase_Skipped tc of None \<Rightarrow> zeroSkipped | Some f \<Rightarrow> f) as)\<rparr>
          else tc)"

definition unmarshalTestCase :: "(string \<times> string) list \<Rightarrow> xml_node list \<Rightarrow> TestCase" where
  "unmarshalTestCase as ns = foldl childTestCase (foldl attrTestCase zeroTestCase as) ns"

definition attrTestSuite :: "TestSuite \<Rightarrow> string \<times> string \<Rightarrow> error + TestSuite" where
  "attrTestSuite s a =
     (if fst a = ''name'' then Inr (s\<lparr>TestSuite_Name := snd a\<rparr>)
      else if fst a = ''tests''
      then (case copyValue_int (snd a) of Inl e \<Rightarrow> Inl e | Inr i \<Rightarrow> Inr (s\<lparr>Tests := i\<rparr>))
      else if fst a = ''failures''
      then (case copyValue_int (snd a) of Inl e \<Rightarrow> Inl e | Inr i \<Rightarrow> Inr (s\<lparr>Failures := i\<rparr>))
      else if fst a = ''errors''
      then (case copyValue_int (snd a) of Inl e \<Rightarrow> Inl e | Inr i \<Rightarrow> Inr (s\<lparr>Errors := i\<rparr>))
      else if fst a = ''skipped''
      then (case copyValue_int (snd a) of
              Inl e \<Rightarrow> Inl e | Inr i \<Rightarrow> Inr (s\<lparr>TestSuite_Skipped := i\<rparr>))
      else if fst a = ''time'' then Inr (s\<lparr>TestSuite_Time := snd a\<rparr>)
      else if fst a = ''timestamp'' then Inr (s\<lparr>Timestamp := snd a\<rparr>)
      else Inr s)"

fun attrsTestSuite :: "TestSuite \<Rightarrow> (string \<times> string) list \<Rightarrow> error + TestSuite" where
  "attrsTestSuite s [] = Inr s"
| "attrsTestSuite s (a # as) =
     (case attrTestSuite s a of Inl e \<Rightarrow> Inl e | Inr s' \<Rightarrow> attrsTestSuite s' as)"

definition childTestSuite :: "TestSuite \<Rightarrow> xml_node \<Rightarrow> TestSuite" where
  "childTestSuite s n =
     (case n of
        CharData _ \<Rightarrow> s
      | Element name as ns \<Rightarrow>
          if name = ''testcase'' then s\<lparr>TestCases := TestCases s @ [unmarshalTestCase as ns]\<rparr>
          else s)"

definition unmarshalTestSuite ::
  "(string \<times> string) list \<Rightarrow> xml_node list \<Rightarrow> error + TestSuite" where
  "unmarshalTestSuite as ns =
     (case attrsTestSuite zeroTestSuite as of
        Inl e \<Rightarrow> Inl e
      | Inr s \<Rightarrow> Inr (foldl childTestSuite s ns))"

fun childrenTestSuites :: "TestSuites \<Rightarrow> xml_node list \<Rightarrow> error + TestSuites" where
  "childrenTestSuites t [] = Inr t"
| "childrenTestSuites t (CharData _ # ns) = childrenTestSuites t ns"
| "childrenTestSuites t (Element name as cs # ns) =
     (if name = ''testsuite''
      then (case unmarshalTestSuite as cs of
              Inl e \<Rightarrow> Inl e
            | Inr s \<Rightarrow>
                childrenTestSuites (t\<lparr>TestSuites_TestSuites := TestSuites_TestSuites t @ [s]\<rparr>) ns)
      else childrenTestSuites t ns)"

text \<open>
  The root: the \<open>XMLName\<close> field tagged \<open>testsuites\<close> makes any other root element an
  error.  \<open>TestSuites\<close> has no attribute field, so the attributes of the root are ignored.
  A document with no element at all ends the token stream: \<open>io.EOF\<close>.
\<close>

definition unmarshalTestSuites :: "xml_node \<Rightarrow> error + TestSuites" where
  "unmarshalTestSuites root =
     (case root of
        CharData _ \<Rightarrow> Inl (LibError ''EOF'')
      | Element name as ns \<Rightarrow>
          if name \<noteq> ''testsuites'' then Inl (ExpectedElement ''testsuites'' name)
          else childrenTestSuites \<lparr> XMLName = name, TestSuites_TestSuites = [] \<rparr> ns)"

section \<open>The environment: transport, files, and the codecs taken as given\<close>

datatype http_body =
  SessionBody SessionRequest
| TestcasesBody TestcasesRequest

record http_request =
  req_method :: string
  req_url :: string
  req_header :: "(string \<times> string) list"
  req_body :: http_body

text \<open>What \<open>client.Do\<close> returns: an error, or a response with its status and body.\<close>

datatype http_result =
  TransportError string
| Response int bytes

datatype log_line =
  CreatedSession string
| NoTestResults
| Submitted nat

text \<open>What a run does to the outside, in order.\<close>

datatype event =
  HttpDo http_request
| Log log_line
| StdinRead
| FileRead string

text \<open>
  The library calls whose results main.go only passes on.  \<open>json_Marshal\<close> and
  \<open>http_NewRequest\<close> give the error of the call, if any (the request body is kept as the
  value that is marshalled); \<open>client_Do\<close> is the server as seen through the transport;
  \<open>json_Decode\<close> decodes a session response body; \<open>json_Unmarshal\<close> decodes the
  baggage flag; \<open>xml_Tokens\<close> is the tokenizer of encoding/xml, which gives the root
  element of well-formed input and an error otherwise.
  A run makes at most two requests, to different URLs, so a function from the request to
  its result covers every behaviour of the server within a run.
\<close>

record env =
  json_Marshal :: "http_body \<Rightarrow> string option"
  http_NewRequest :: "string \<Rightarrow> string option"
  client_Do :: "http_request \<Rightarrow> http_result"
  json_Decode :: "bytes \<Rightarrow> string + SessionResponse"
  json_Unmarshal :: "string \<Rightarrow> string + baggage"
  io_ReadAll_Stdin :: "string + bytes"
  os_ReadFile :: "string \<Rightarrow> string + bytes"
  xml_Tokens :: "bytes \<Rightarrow> string + xml_node"

definition StatusCreated :: int where
  "StatusCreated = 201"

definition xml_Unmarshal :: "env \<Rightarrow> bytes \<Rightarrow> error + TestSuites" where
  "xml_Unmarshal ev xmlData =
     (case xml_Tokens ev xmlData of
        Inl e \<Rightarrow> Inl (LibError e)
      | Inr root \<Rightarrow> unmarshalTestSuites root)"

section \<open>\<open>createSession\<close> (main.go, lines 152--196)\<close>

text \<open>Lines 153--162: the request value, with the default description.\<close>

definition sessionRequest :: "Reporter \<Rightarrow> SessionRequest" where
  "sessionRequest r =
     (let req = \<lparr> SessionRequest_Id = sessionId r,
                  Description = sessionDescription r,
                  Labels = sessionLabels r,
                  SessionRequest_Baggage = sessionBaggage r \<rparr>
      in if Description req = '''' then req\<lparr>Description := ''JUnit XML test report''\<rparr>
         else req)"

definition sessionsURL :: "Reporter \<Rightarrow> string" where
  "sessionsURL r = endpoint r @ ''/api/v1/ingress/sessions''"

text \<open>
  The request that \<open>http.NewRequest\<close> and the two calls of \<open>Header.Set\<close> build (lines
  169--175 and 242--248).  \<open>Header.Set\<close> stores a key in its canonical form, so the key
  written \<open>x-api-key\<close> in main.go is \<open>X-Api-Key\<close> in the request.
\<close>

definition httpRequest :: "Reporter \<Rightarrow> string \<Rightarrow> http_body \<Rightarrow> http_request" where
  "httpRequest r u b =
     \<lparr> req_method = ''POST'',
       req_url = u,
       req_header = [(''Content-Type'', ''application/json''), (''X-Api-Key'', apiKey r)],
       req_body = b \<rparr>"

text \<open>The result is the returned error, the reporter after the call, and the events.\<close>

definition createSession :: "env \<Rightarrow> Reporter \<Rightarrow> error option \<times> Reporter \<times> event list" where
  "createSession ev r =
     (let req = sessionRequest r in
      case json_Marshal ev (SessionBody req) of
        Some e \<Rightarrow> (Some (Wrap ''marshal session request'' (LibError e)), r, [])
      | None \<Rightarrow>
     (case http_NewRequest ev (sessionsURL r) of
        Some e \<Rightarrow> (Some (Wrap ''create session request'' (LibError e)), r, [])
      | None \<Rightarrow>
     (let httpReq = httpRequest r (sessionsURL r) (SessionBody req) in
      case client_Do ev httpReq of
        TransportError e \<Rightarrow>
          (Some (Wrap ''send session request'' (LibError e)), r, [HttpDo httpReq])
      | Response status body \<Rightarrow>
          if status \<noteq> StatusCreated
          then (Some (StatusError ''create session failed'' status body), r, [HttpDo httpReq])
          else (case json_Decode ev body of
                  Inl e \<Rightarrow>
                    (Some (Wrap ''decode session response'' (LibError e)), r, [HttpDo httpReq])
                | Inr sessionResp \<Rightarrow>
                    (None, r\<lparr>sessionId := SessionResponse_Id sessionResp\<rparr>,
                     [HttpDo httpReq, Log (CreatedSession (SessionResponse_Id sessionResp))])))))"

section \<open>\<open>submitResults\<close> (main.go, lines 198--263)\<close>

definition testcasesURL :: "Reporter \<Rightarrow> string" where
  "testcasesURL r = endpoint r @ ''/api/v1/ingress/testcases''"

definition submitResults :: "env \<Rightarrow> Reporter \<Rightarrow> TestSuites \<Rightarrow> error option \<times> event list" where
  "submitResults ev r testsuites =
     (let testcases = buildTestcases r testsuites in
      if length testcases = 0 then (None, [Log NoTestResults])
      else
     (let req = \<lparr> Testcases = testcases \<rparr> in
      case json_Marshal ev (TestcasesBody req) of
        Some e \<Rightarrow> (Some (Wrap ''marshal testcases request'' (LibError e)), [])
      | None \<Rightarrow>
     (case http_NewRequest ev (testcasesURL r) of
        Some e \<Rightarrow> (Some (Wrap ''create testcases request'' (LibError e)), [])
      | None \<Rightarrow>
     (let httpReq = httpRequest r (testcasesURL r) (TestcasesBody req) in
      case client_Do ev httpReq of
        TransportError e \<Rightarrow>
          (Some (Wrap ''send testcases request'' (LibError e)), [HttpDo httpReq])
      | Response status body \<Rightarrow>
          if status \<noteq> StatusCreated
          then (Some (StatusError ''submit testcases failed'' status body), [HttpDo httpReq])
          else (None, [HttpDo httpReq, Log (Submitted (length testcases))])))))"

section \<open>\<open>run\<close> (main.go, lines 265--314)\<close>

text \<open>The values of the command-line flags, as \<open>c.String\<close> returns them.\<close>

record flags =
  ingressEndpointFlag :: string
  ingressAPIKeyFlag :: string
  xmlFileFlag :: string
  sessionIDFlag :: string
  sessionDescriptionFlag :: string
  sessionLabelsFlag :: string
  sessionBaggageFlag :: string

text \<open>Lines 276--281.\<close>

definition parseBaggage :: "env \<Rightarrow> string \<Rightarrow> error + baggage" where
  "parseBaggage ev sessionBaggageStr =
     (if sessionBaggageStr \<noteq> ''''
      then (case json_Unmarshal ev sessionBaggageStr of
              Inl e \<Rightarrow> Inl (Wrap ''parse session baggage'' (LibError e))
            | Inr b \<Rightarrow> Inr b)
      else Inr None)"

text \<open>Lines 289--302.\<close>

definition readInput :: "env \<Rightarrow> string \<Rightarrow> (error + bytes) \<times> event list" where
  "readInput ev xmlFile =
     (if xmlFile = ''-''
      then (case io_ReadAll_Stdin ev of
              Inl e \<Rightarrow> (Inl (Wrap ''read from stdin'' (LibError e)), [StdinRead])
            | Inr xmlData \<Rightarrow> (Inr xmlData, [StdinRead]))
      else (case os_ReadFile ev xmlFile of
              Inl e \<Rightarrow> (Inl (Wrap (''read file '' @ xmlFile) (LibError e)), [FileRead xmlFile])
            | Inr xmlData \<Rightarrow> (Inr xmlData, [FileRead xmlFile])))"

text \<open>The reporter that \<open>run\<close> constructs from the flags (line 283).\<close>

definition flagsReporter :: "flags \<Rightarrow> baggage \<Rightarrow> Reporter" where
  "flagsReporter c sessionBaggage' =
     NewReporter (ingressEndpointFlag c) (ingressAPIKeyFlag c) (sessionIDFlag c)
       (sessionDescriptionFlag c) (parseLabels (sessionLabelsFlag c)) sessionBaggage'"

definition run :: "env \<Rightarrow> flags \<Rightarrow> error option \<times> event list" where
  "run ev c =
     (case parseBaggage ev (sessionBaggageFlag c) of
        Inl e \<Rightarrow> (Some e, [])
      | Inr sessionBaggage' \<Rightarrow>
     (case createSession ev (flagsReporter c sessionBaggage') of
        (Some e, reporter, tr1) \<Rightarrow> (Some (Wrap ''create session'' e), tr1)
      | (None, reporter, tr1) \<Rightarrow>
     (case readInput ev (xmlFileFlag c) of
        (Inl e, tr2) \<Rightarrow> (Some e, tr1 @ tr2)
      | (Inr xmlData, tr2) \<Rightarrow>
     (case xml_Unmarshal ev xmlData of
        Inl e \<Rightarrow> (Some (Wrap ''parse XML'' e), tr1 @ tr2)
      | Inr testsuites \<Rightarrow>
     (case submitResults ev reporter testsuites of
        (Some e, tr3) \<Rightarrow> (Some (Wrap ''submit results'' e), tr1 @ tr2 @ tr3)
      | (None, tr3) \<Rightarrow> (None, tr1 @ tr2 @ tr3))))))"

section \<open>Observations on traces\<close>

text \<open>
  The requests of a trace; whether a request is a submission; the records submitted in a
  trace; whether an event reads the input; and the session request of a reporter (lines
  153--175 of \<open>createSession\<close>).
\<close>

definition requests :: "event list \<Rightarrow> http_request list" where
  "requests tr = concat (map (\<lambda>e. case e of HttpDo q \<Rightarrow> [q] | _ \<Rightarrow> []) tr)"

definition isSubmission :: "http_request \<Rightarrow> bool" where
  "isSubmission q = (case req_body q of TestcasesBody _ \<Rightarrow> True | SessionBody _ \<Rightarrow> False)"

definition submitted :: "event list \<Rightarrow> TestcaseRequest list" where
  "submitted tr =
     concat (map (\<lambda>q. case req_body q of TestcasesBody t \<Rightarrow> Testcases t | SessionBody _ \<Rightarrow> [])
       (requests tr))"

definition isRead :: "event \<Rightarrow> bool" where
  "isRead e = (case e of StdinRead \<Rightarrow> True | FileRead _ \<Rightarrow> True | _ \<Rightarrow> False)"

definition sessionHttpRequest :: "Reporter \<Rightarrow> http_request" where
  "sessionHttpRequest r = httpRequest r (sessionsURL r) (SessionBody (sessionRequest r))"

text \<open>The event of reading the input named by the flag (lines 292--302).\<close>

definition readEvent :: "string \<Rightarrow> event" where
  "readEvent xmlFile = (if xmlFile = ''-'' then StdinRead else FileRead xmlFile)"

section \<open>Which attribute texts the decoder accepts\<close>






section \<open>Example inputs\<close>

text \<open>
  The report of the scenario of the specification: suite \<open>pkg\<close> with the passing case
  \<open>TestA\<close> and the failing case \<open>TestB\<close>; its \<open>time\<close> attribute is not a number.
\<close>

definition demoDoc :: xml_node where
  "demoDoc =
     Element ''testsuites'' []
       [Element ''testsuite'' [(''name'', ''pkg''), (''tests'', ''2''), (''time'', ''soon'')]
          [Element ''testcase'' [(''name'', ''TestA'')] [],
           Element ''testcase'' [(''name'', ''TestB'')]
             [Element ''failure'' [(''message'', ''assert failed'')]
                [CharData ''got 1 want 2'']]]]"

text \<open>A well-formed report whose \<open>tests\<close> attribute is not a number.\<close>

definition malformedCountDoc :: xml_node where
  "malformedCountDoc =
     Element ''testsuites'' []
       [Element ''testsuite'' [(''name'', ''pkg''), (''tests'', ''abc'')]
          [Element ''testcase'' [(''name'', ''TestA'')] []]]"

text \<open>A report with two suites and no case.\<close>

definition emptyReport :: TestSuites where
  "emptyReport =
     \<lparr> XMLName = ''testsuites'',
       TestSuites_TestSuites =
         [zeroTestSuite\<lparr>TestSuite_Name := ''a''\<rparr>, zeroTestSuite\<lparr>TestSuite_Name := ''b''\<rparr>] \<rparr>"

text \<open>
  An environment: the server answers 201 to both requests and resolves the session to
  \<open>s-1\<close>; the files \<open>report.xml\<close>, \<open>counts.xml\<close> and \<open>broken.xml\<close> exist, the last one is
  not well-formed; standard input cannot be read.
\<close>

definition demoEnv :: env where
  "demoEnv =
     \<lparr> json_Marshal = (\<lambda>b. None),
       http_NewRequest = (\<lambda>u. None),
       client_Do = (\<lambda>q. if isSubmission q then Response 201 '''' else Response 201 ''id=s-1''),
       json_Decode = (\<lambda>b. if b = ''id=s-1'' then Inr \<lparr> SessionResponse_Id = ''s-1'' \<rparr>
                            else Inl ''unexpected end of JSON input''),
       json_Unmarshal = (\<lambda>s. Inl ''invalid character''),
       io_ReadAll_Stdin = Inl ''file already closed'',
       os_ReadFile = (\<lambda>p. if p = ''report.xml'' then Inr ''report''
                           else if p = ''counts.xml'' then Inr ''counts''
                           else if p = ''broken.xml'' then Inr ''broken''
                           else Inl ''no such file or directory''),
       xml_Tokens = (\<lambda>d. if d = ''report'' then Inr demoDoc
                          else if d = ''counts'' then Inr malformedCountDoc
                          else Inl ''XML syntax error'') \<rparr>"

definition demoFlags :: flags where
  "demoFlags =
     \<lparr> ingressEndpointFlag = ''http://h/'',
       ingressAPIKeyFlag = ''key'',
       xmlFileFlag = ''report.xml'',
       sessionIDFlag = ''client-id'',
       sessionDescriptionFlag = '''',
       sessionLabelsFlag = '''',
       sessionBaggageFlag = '''' \<rparr>"

text \<open>The reporter that \<open>run\<close> builds from these flags.\<close>

definition demoReporter :: Reporter where
  "demoReporter = flagsReporter demoFlags None"

text \<open>A case with chosen outcome details, for the precedence of failure, error and skipped.\<close>

definition demoFailure :: Failure where
  "demoFailure = \<lparr> Failure_Message = ''assert failed'', Failure_Type = ''AssertionError'',
                   Failure_Content = ''got 1 want 2'' \<rparr>"

definition demoError :: Error where
  "demoError = \<lparr> Error_Message = ''panic'', Error_Type = ''RuntimeError'',
                 Error_Content = ''stack'' \<rparr>"

definition demoSkipped :: Skipped where
  "demoSkipped = \<lparr> Skipped_Message = ''not on this platform'' \<rparr>"

definition demoCase :: "Failure option \<Rightarrow> Error option \<Rightarrow> Skipped option \<Rightarrow> TestCase" where
  "demoCase f e s =
     \<lparr> TestCase_Name = ''TestB'', TestCase_Classname = ''pkg.B'', TestCase_Time = ''0.1'',
       TestCase_Failure = f, TestCase_Error = e, TestCase_Skipped = s \<rparr>"

text \<open>A report with one case for each step of the precedence, in two suites.\<close>

definition precedenceReport :: TestSuites where
  "precedenceReport =
     \<lparr> XMLName = ''testsuites'',
       TestSuites_TestSuites =
         [zeroTestSuite\<lparr>TestSuite_Name := ''a'',
            TestCases := [demoCase (Some demoFailure) (Some demoError) (Some demoSkipped),
                          demoCase None (Some demoError) (Some demoSkipped)]\<rparr>,
          zeroTestSuite\<lparr>TestSuite_Name := ''b'',
            TestCases := [demoCase None None (Some demoSkipped), demoCase None None None]\<rparr>] \<rparr>"

text \<open>The example report decoded, its records for session \<open>s-1\<close>, and their submission.\<close>

definition demoReport :: TestSuites where
  "demoReport =
     \<lparr> XMLName = ''testsuites'',
       TestSuites_TestSuites =
         [\<lparr> TestSuite_Name = ''pkg'', Tests = 2, Failures = 0, Errors = 0,
             TestSuite_Skipped = 0, TestSuite_Time = ''soon'', Timestamp = '''',
             TestCases =
               [\<lparr> TestCase_Name = ''TestA'', TestCase_Classname = '''', TestCase_Time = '''',
                   TestCase_Failure = None, TestCase_Error = None, TestCase_Skipped = None \<rparr>,
                \<lparr> TestCase_Name = ''TestB'', TestCase_Classname = '''', TestCase_Time = '''',
                   TestCase_Failure =
                     Some \<lparr> Failure_Message = ''assert failed'', Failure_Type = '''',
                            Failure_Content = ''got 1 want 2'' \<rparr>,
                   TestCase_Error = None, TestCase_Skipped = None \<rparr>] \<rparr>] \<rparr>"

definition demoRecords :: "TestcaseRequest list" where
  "demoRecords =
     [\<lparr> SessionId = ''s-1'', TestcaseName = ''TestA'', TestcaseClassname = '''',
         TestcaseFile = '''', Testsuite = ''pkg'', Status = ''pass'', Output = '''',
         TestcaseRequest_Baggage = None \<rparr>,
      \<lparr> SessionId = ''s-1'', TestcaseName = ''TestB'', TestcaseClassname = '''',
         TestcaseFile = '''', Testsuite = ''pkg'', Status = ''fail'',
         Output = ''Failure: assert failed'' @ [CHR 0x0A] @ ''got 1 want 2'',
         TestcaseRequest_Baggage = None \<rparr>]"

definition demoSubmission :: http_request where
  "demoSubmission =
     httpRequest (demoReporter\<lparr>sessionId := ''s-1''\<rparr>) ''http://h/api/v1/ingress/testcases''
       (TestcasesBody \<lparr> Testcases = demoRecords \<rparr>)"

section \<open>Properties of the normalizer\<close>

lemma casesLoop_append:
  "casesLoop r suite tcs acc = acc @ map (testcaseRequest r suite) tcs"
  by (induction tcs arbitrary: acc) simp_all

lemma suitesLoop_append:
  "suitesLoop r suites acc =
     acc @ concat (map (\<lambda>suite. map (testcaseRequest r suite) (TestCases suite)) suites)"
  by (induction suites arbitrary: acc) (simp_all add: casesLoop_append)

lemma buildTestcases_allCases:
  "buildTestcases r testsuites = map (\<lambda>(suite, tc). testcaseRequest r suite tc) (allCases testsuites)"
  by (simp add: buildTestcases_def allCases_def suitesLoop_append map_concat comp_def)

lemma length_allCases: "length (allCases testsuites) = caseCount testsuites"
  by (simp add: allCases_def caseCount_def length_concat comp_def)

text \<open>
  Claim C1.  The normalizer of \<open>submitResults\<close> builds exactly one record per case: the
  records are the cases of the report in document order (suite order, then case order
  within the suite), each mapped by the loop body, so their number is the total number of
  cases over all suites, and the suite and case names of the records are those of the
  cases in that order.
\<close>

theorem C1_one_record_per_case_in_order:
  "buildTestcases r testsuites =
     map (\<lambda>(suite, tc). testcaseRequest r suite tc) (allCases testsuites)
   \<and> length (buildTestcases r testsuites) = caseCount testsuites
   \<and> map (\<lambda>q. (Testsuite q, TestcaseName q)) (buildTestcases r testsuites) =
       map (\<lambda>(suite, tc). (TestSuite_Name suite, TestCase_Name tc)) (allCases testsuites)"
  by (simp add: buildTestcases_allCases length_allCases testcaseRequest_def
      split_def comp_def)

section \<open>Properties of the session and of the pipeline\<close>

lemma createSession_send:
  assumes "json_Marshal ev (SessionBody (sessionRequest r)) = None"
      and "http_NewRequest ev (sessionsURL r) = None"
  shows "createSession ev r =
     (case client_Do ev (sessionHttpRequest r) of
        TransportError m \<Rightarrow>
          (Some (Wrap ''send session request'' (LibError m)), r, [HttpDo (sessionHttpRequest r)])
      | Response status body \<Rightarrow>
          if status \<noteq> StatusCreated
          then (Some (StatusError ''create session failed'' status body), r,
                [HttpDo (sessionHttpRequest r)])
          else (case json_Decode ev body of
                  Inl m \<Rightarrow>
                    (Some (Wrap ''decode session response'' (LibError m)), r,
                     [HttpDo (sessionHttpRequest r)])
                | Inr sessionResp \<Rightarrow>
                    (None, r\<lparr>sessionId := SessionResponse_Id sessionResp\<rparr>,
                     [HttpDo (sessionHttpRequest r),
                      Log (CreatedSession (SessionResponse_Id sessionResp))])))"
  using assms by (simp add: createSession_def sessionHttpRequest_def Let_def
      split: http_result.splits sum.splits)

lemma createSession_success:
  assumes "fst (createSession ev r) = None"
  shows "\<exists>body resp.
           client_Do ev (sessionHttpRequest r) = Response StatusCreated body \<and>
           json_Decode ev body = Inr resp \<and>
           createSession ev r =
             (None, r\<lparr>sessionId := SessionResponse_Id resp\<rparr>,
              [HttpDo (sessionHttpRequest r), Log (CreatedSession (SessionResponse_Id resp))])"
  using assms
  by (auto simp: createSession_def sessionHttpRequest_def Let_def
      split: option.splits http_result.splits sum.splits if_splits)

lemma createSession_failure_trace:
  assumes "fst (createSession ev r) = Some e"
  shows "snd (snd (createSession ev r)) = [] \<or>
         snd (snd (createSession ev r)) = [HttpDo (sessionHttpRequest r)]"
  using assms
  by (auto simp: createSession_def sessionHttpRequest_def Let_def
      split: option.splits http_result.splits sum.splits if_splits)

lemma isSubmission_session [simp]: "\<not> isSubmission (sessionHttpRequest r)"
  by (simp add: isSubmission_def sessionHttpRequest_def httpRequest_def)

lemma requests_simps [simp]:
  "requests [] = []"
  "requests (HttpDo q # tr) = q # requests tr"
  "requests (Log l # tr) = requests tr"
  "requests (StdinRead # tr) = requests tr"
  "requests (FileRead p # tr) = requests tr"
  "requests (tr @ tr') = requests tr @ requests tr'"
  by (simp_all add: requests_def)

lemma run_createSession_error:
  assumes "parseBaggage ev (sessionBaggageFlag c) = Inr b"
      and "fst (createSession ev (flagsReporter c b)) = Some e"
  shows "run ev c = (Some (Wrap ''create session'' e), snd (snd (createSession ev (flagsReporter c b))))"
  using assms by (cases "createSession ev (flagsReporter c b)") (simp add: run_def)

lemma run_createSession_ok:
  assumes "parseBaggage ev (sessionBaggageFlag c) = Inr b"
      and "createSession ev (flagsReporter c b) = (None, r', tr1)"
  shows "run ev c =
     (case readInput ev (xmlFileFlag c) of
        (Inl e, tr2) \<Rightarrow> (Some e, tr1 @ tr2)
      | (Inr xmlData, tr2) \<Rightarrow>
     (case xml_Unmarshal ev xmlData of
        Inl e \<Rightarrow> (Some (Wrap ''parse XML'' e), tr1 @ tr2)
      | Inr testsuites \<Rightarrow>
     (case submitResults ev r' testsuites of
        (Some e, tr3) \<Rightarrow> (Some (Wrap ''submit results'' e), tr1 @ tr2 @ tr3)
      | (None, tr3) \<Rightarrow> (None, tr1 @ tr2 @ tr3))))"
  using assms by (simp add: run_def)

lemma readInput_trace:
  "snd (readInput ev f) = [if f = ''-'' then StdinRead else FileRead f]"
  by (simp add: readInput_def split: sum.splits)

lemma buildTestcases_SessionId:
  "list_all (\<lambda>q. SessionId q = sessionId r) (buildTestcases r ts)"
  by (simp add: buildTestcases_allCases list_all_iff testcaseRequest_def split_def)

lemma submitResults_submitted:
  "list_all (\<lambda>q. SessionId q = sessionId r) (submitted (snd (submitResults ev r ts)))"
  using buildTestcases_SessionId[of r ts]
  by (simp add: submitResults_def Let_def submitted_def httpRequest_def
      split: option.splits http_result.splits)

lemma demo_createSession:
  "createSession demoEnv demoReporter =
     (None, demoReporter\<lparr>sessionId := ''s-1''\<rparr>,
      [HttpDo (sessionHttpRequest demoReporter), Log (CreatedSession ''s-1'')])"
  by (simp add: createSession_send demoEnv_def isSubmission_session StatusCreated_def)

lemma demoReporter_eq:
  "demoReporter =
     \<lparr> endpoint = ''http://h'', apiKey = ''key'', sessionId = ''client-id'',
       sessionDescription = '''', sessionLabels = [], sessionBaggage = None \<rparr>"
  by (simp add: demoReporter_def flagsReporter_def demoFlags_def NewReporter_def
      TrimSuffix_def HasSuffix_def parseLabels_def)

lemma demo_parseBaggage: "parseBaggage demoEnv (sessionBaggageFlag demoFlags) = Inr None"
  by (simp add: parseBaggage_def demoFlags_def)

section \<open>Status and output of a case\<close>

lemma precedence_allCases:
  "allCases precedenceReport =
     [(zeroTestSuite\<lparr>TestSuite_Name := ''a'',
            TestCases := [demoCase (Some demoFailure) (Some demoError) (Some demoSkipped),
                          demoCase None (Some demoError) (Some demoSkipped)]\<rparr>,
       demoCase (Some demoFailure) (Some demoError) (Some demoSkipped)),
      (zeroTestSuite\<lparr>TestSuite_Name := ''a'',
            TestCases := [demoCase (Some demoFailure) (Some demoError) (Some demoSkipped),
                          demoCase None (Some demoError) (Some demoSkipped)]\<rparr>,
       demoCase None (Some demoError) (Some demoSkipped)),
      (zeroTestSuite\<lparr>TestSuite_Name := ''b'',
            TestCases := [demoCase None None (Some demoSkipped), demoCase None None None]\<rparr>,
       demoCase None None (Some demoSkipped)),
      (zeroTestSuite\<lparr>TestSuite_Name := ''b'',
            TestCases := [demoCase None None (Some demoSkipped), demoCase None None None]\<rparr>,
       demoCase None None None)]"
  by (simp add: allCases_def precedenceReport_def)

text \<open>
  Claim C2.  For the case at any position of a report, in document order, the record at
  that position among those \<open>submitResults\<close> builds has its status and its output by the
  precedence failure, error, skipped, none: a failure detail gives \<open>fail\<close> and
  \<open>Failure: \<close>, the message, a line feed and the body; otherwise an error detail gives
  \<open>error\<close> and \<open>Error: \<close>, the message, a line feed and the body; otherwise a skipped
  detail gives \<open>skip\<close> and the skip message as it is; otherwise \<open>pass\<close> and the empty
  string.
\<close>

theorem C2_status_output_precedence:
  assumes "i < caseCount testsuites"
      and "allCases testsuites ! i = (suite, tc)"
  shows "(TestCase_Failure tc = Some f \<longrightarrow>
      Status (buildTestcases r testsuites ! i) = ''fail'' \<and>
      Output (buildTestcases r testsuites ! i) =
        ''Failure: '' @ Failure_Message f @ [CHR 0x0A] @ Failure_Content f)
   \<and> (TestCase_Failure tc = None \<and> TestCase_Error tc = Some e \<longrightarrow>
      Status (buildTestcases r testsuites ! i) = ''error'' \<and>
      Output (buildTestcases r testsuites ! i) =
        ''Error: '' @ Error_Message e @ [CHR 0x0A] @ Error_Content e)
   \<and> (TestCase_Failure tc = None \<and> TestCase_Error tc = None \<and> TestCase_Skipped tc = Some s \<longrightarrow>
      Status (buildTestcases r testsuites ! i) = ''skip'' \<and>
      Output (buildTestcases r testsuites ! i) = Skipped_Message s)
   \<and> (TestCase_Failure tc = None \<and> TestCase_Error tc = None \<and> TestCase_Skipped tc = None \<longrightarrow>
      Status (buildTestcases r testsuites ! i) = ''pass'' \<and>
      Output (buildTestcases r testsuites ! i) = '''')"
proof -
  have "buildTestcases r testsuites ! i = testcaseRequest r suite tc"
    using assms by (simp add: buildTestcases_allCases length_allCases)
  then show ?thesis
    by (simp add: testcaseRequest_def statusOutput_def sprintf_Failure_def sprintf_Error_def)
qed

theorem C2_status_output_precedence_witness:
  "caseCount precedenceReport = 4
   \<and> map (\<lambda>q. (Status q, Output q)) (buildTestcases demoReporter precedenceReport) =
   [(''fail'', ''Failure: assert failed'' @ [CHR 0x0A] @ ''got 1 want 2''),
    (''error'', ''Error: panic'' @ [CHR 0x0A] @ ''stack''),
    (''skip'', ''not on this platform''),
    (''pass'', '''')]"
proof -
  have n: "caseCount precedenceReport = 4"
    by (simp add: caseCount_def precedenceReport_def)
  have l: "length (buildTestcases demoReporter precedenceReport) = 4"
    using n by (simp add: buildTestcases_allCases length_allCases)
  have i: "(0::nat) < 4" "(1::nat) < 4" "(2::nat) < 4" "(3::nat) < 4" by simp_all
  note a = precedence_allCases
  have c: "TestCase_Failure (demoCase x y z) = x" "TestCase_Error (demoCase x y z) = y"
    "TestCase_Skipped (demoCase x y z) = z" for x y z
    by (simp_all add: demoCase_def)
  have 0: "Status (buildTestcases demoReporter precedenceReport ! 0) = ''fail'' \<and>
           Output (buildTestcases demoReporter precedenceReport ! 0) =
             ''Failure: assert failed'' @ [CHR 0x0A] @ ''got 1 want 2''"
    using C2_status_output_precedence[OF i(1)[folded n], where f = demoFailure and r = demoReporter]
    by (simp add: a c demoFailure_def)
  have 1: "Status (buildTestcases demoReporter precedenceReport ! 1) = ''error'' \<and>
           Output (buildTestcases demoReporter precedenceReport ! 1) =
             ''Error: panic'' @ [CHR 0x0A] @ ''stack''"
    using C2_status_output_precedence[OF i(2)[folded n], where e = demoError and r = demoReporter]
    by (simp add: a c demoError_def)
  have 2: "Status (buildTestcases demoReporter precedenceReport ! 2) = ''skip'' \<and>
           Output (buildTestcases demoReporter precedenceReport ! 2) = ''not on this platform''"
    using C2_status_output_precedence[OF i(3)[folded n], where s = demoSkipped and r = demoReporter]
    by (simp add: a c demoSkipped_def)
  have 3: "Status (buildTestcases demoReporter precedenceReport ! 3) = ''pass'' \<and>
           Output (buildTestcases demoReporter precedenceReport ! 3) = ''''"
    using C2_status_output_precedence[OF i(4)[folded n], where r = demoReporter]
    by (simp add: a c)
  have "map f xs = [f (xs ! 0), f (xs ! 1), f (xs ! 2), f (xs ! 3)]"
    if "length xs = 4" for f :: "TestcaseRequest \<Rightarrow> string \<times> string" and xs
    using that by (auto simp: list_eq_iff_nth_eq less_Suc_eq numeral_eq_Suc)
  from this[OF l] 0 1 2 3 n show ?thesis by simp
qed

section \<open>The empty report\<close>

text \<open>
  Claim C5.  For a report with no case in any suite, \<open>submitResults\<close> builds no record,
  makes no request, and returns no error.
\<close>

theorem C5_empty_report_is_no_op:
  assumes "caseCount testsuites = 0"
  shows "buildTestcases r testsuites = []
       \<and> submitResults ev r testsuites = (None, [Log NoTestResults])
       \<and> requests (snd (submitResults ev r testsuites)) = []"
proof -
  have "length (buildTestcases r testsuites) = 0"
    using assms by (simp add: buildTestcases_allCases length_allCases)
  then show ?thesis
    by (simp add: submitResults_def)
qed

theorem C5_empty_report_is_no_op_witness:
  "caseCount emptyReport = 0
   \<and> buildTestcases demoReporter emptyReport = []
   \<and> submitResults demoEnv demoReporter emptyReport = (None, [Log NoTestResults])
   \<and> requests (snd (submitResults demoEnv demoReporter emptyReport)) = []"
proof -
  have h: "caseCount emptyReport = 0"
    by (simp add: caseCount_def emptyReport_def zeroTestSuite_def)
  show ?thesis
    using h C5_empty_report_is_no_op[OF h, of demoReporter demoEnv] by simp
qed

section \<open>Labels, endpoint and description\<close>

lemma TrimSuffix_slash_append: "TrimSuffix (e @ ''/'') ''/'' = e"
  by (simp add: TrimSuffix_def HasSuffix_def)

lemma TrimSuffix_no_slash: "\<not> HasSuffix e ''/'' \<Longrightarrow> TrimSuffix e ''/'' = e"
  by (simp add: TrimSuffix_def)

lemma tl_dropWhile_drop:
  "tl (dropWhile P xs) = drop (Suc (length (takeWhile P xs))) xs"
  by (induction xs) simp_all

lemma labelStep_words:
  "labelStep labels t =
     labels @ map tokenLabel (filter (\<lambda>t. t \<noteq> '''') [TrimSpace t])"
  by (simp add: labelStep_def Let_def Cut_def tokenLabel_def tl_dropWhile_drop)

lemma labelsLoop_words:
  "labelsLoop ts labels =
     labels @ map tokenLabel (filter (\<lambda>t. t \<noteq> '''') (map TrimSpace ts))"
  by (induction ts arbitrary: labels) (simp_all add: labelStep_words)

lemma TrimSpace_Nil: "TrimSpace '''' = ''''"
  by code_simp

lemma parseLabels_words: "parseLabels s = labels_of_words s"
proof (cases "s = ''''")
  case True
  have "SplitSeq '''' (CHR '','') = ['''']" by (subst SplitSeq.simps) simp
  with True show ?thesis
    by (simp add: parseLabels_def labels_of_words_def TrimSpace_Nil)
next
  case False
  then show ?thesis
    by (simp add: parseLabels_def labels_of_words_def labelsLoop_words)
qed

lemma parseLabels_example:
  "parseLabels ''ci,tag=value, ,env='' =
     [\<lparr>Key = ''ci'', Value = ''''\<rparr>, \<lparr>Key = ''tag'', Value = ''value''\<rparr>,
      \<lparr>Key = ''env'', Value = ''''\<rparr>]"
  by code_simp

text \<open>A trimmed string has no space rune at either end.\<close>

lemma TrimLeft_leading: "leadingSpace (TrimLeft s) = 0"
  by (induction s rule: TrimLeft.induct) (subst TrimLeft.simps, simp)

lemma TrimRight_trailing: "trailingSpace (TrimRight s) = 0"
  by (induction s rule: TrimRight.induct) (subst TrimRight.simps, simp)

lemma TrimRight_take: "\<exists>n. TrimRight s = take n s"
proof (induction s rule: TrimRight.induct)
  case (1 s)
  show ?case
  proof (cases "trailingSpace s = 0")
    case True
    then have "TrimRight s = take (length s) s" by (subst TrimRight.simps) simp
    then show ?thesis by blast
  next
    case False
    with 1 obtain n where "TrimRight (take (length s - trailingSpace s) s) = take n (take (length s - trailingSpace s) s)"
      by blast
    with False have "TrimRight s = take (min n (length s - trailingSpace s)) s"
      by (subst TrimRight.simps) (simp add: min.commute)
    then show ?thesis by blast
  qed
qed

lemma leadingSpace_0_iff: "leadingSpace s = 0 \<longleftrightarrow> (\<forall>e \<in> set whiteSpace. \<not> HasPrefix s e)"
proof -
  have ne: "\<And>e. e \<in> set whiteSpace \<Longrightarrow> length e \<noteq> 0" by (auto simp: whiteSpace_def)
  show ?thesis
    unfolding leadingSpace_def
    by (auto split: option.splits simp: find_None_iff find_Some_iff dest: ne nth_mem)
qed

lemma leadingSpace_take:
  assumes "leadingSpace s = 0" shows "leadingSpace (take n s) = 0"
proof -
  have "HasPrefix (take n s) e \<Longrightarrow> HasPrefix s e" for e
    by (auto simp: HasPrefix_def min_def split: if_splits)
  with assms show ?thesis by (auto simp: leadingSpace_0_iff)
qed

lemma TrimSpace_no_space:
  "leadingSpace (TrimSpace s) = 0 \<and> trailingSpace (TrimSpace s) = 0"
proof -
  obtain n where n: "TrimRight (TrimLeft s) = take n (TrimLeft s)"
    using TrimRight_take by blast
  have "leadingSpace (take n (TrimLeft s)) = 0"
    by (rule leadingSpace_take) (rule TrimLeft_leading)
  with n have "leadingSpace (TrimSpace s) = 0"
    by (simp add: TrimSpace_def)
  moreover have "trailingSpace (TrimSpace s) = 0"
    unfolding TrimSpace_def by (rule TrimRight_trailing)
  ultimately show ?thesis by simp
qed

lemma SplitSeq_no_sep: "list_all (\<lambda>t. sep \<notin> set t) (SplitSeq s sep)"
proof (induction s sep rule: SplitSeq.induct)
  case (1 s sep)
  show ?case
  proof (cases "sep \<in> set s")
    case True
    have "sep \<notin> set (takeWhile (\<lambda>c. c \<noteq> sep) s)"
      by (auto dest: set_takeWhileD)
    with True 1 show ?thesis
      by (subst SplitSeq.simps) simp
  next
    case False
    then show ?thesis by (subst SplitSeq.simps) simp
  qed
qed

lemma SplitSeq_join: "concat (map (\<lambda>t. sep # t) (SplitSeq s sep)) = sep # s"
proof (induction s sep rule: SplitSeq.induct)
  case (1 s sep)
  show ?case
  proof (cases "sep \<in> set s")
    case True
    then have ne: "dropWhile (\<lambda>c. c \<noteq> sep) s \<noteq> []" by simp
    then have "hd (dropWhile (\<lambda>c. c \<noteq> sep) s) = sep"
      using hd_dropWhile[of "\<lambda>c. c \<noteq> sep" s] by simp
    with ne have "dropWhile (\<lambda>c. c \<noteq> sep) s = sep # tl (dropWhile (\<lambda>c. c \<noteq> sep) s)"
      by (cases "dropWhile (\<lambda>c. c \<noteq> sep) s") simp_all
    then have "takeWhile (\<lambda>c. c \<noteq> sep) s @ sep # tl (dropWhile (\<lambda>c. c \<noteq> sep) s) = s"
      by (metis takeWhile_dropWhile_id)
    with True 1 show ?thesis
      by (subst SplitSeq.simps) simp
  next
    case False
    then show ?thesis by (subst SplitSeq.simps) simp
  qed
qed

text \<open>
  Claim C8.  \<open>parseLabels\<close> splits its input on commas, trims the white space of each
  token, drops the blank tokens, and reads a token without \<open>=\<close> as a key and a token
  with \<open>=\<close> as a key and a value, split at the first \<open>=\<close>.  The tokens are the pieces
  of the input between its commas: joined by commas they give the input back, and none
  holds a comma.  A trimmed token has no space rune at either end.  The input
  \<open>ci,tag=value, ,env=\<close> gives the labels \<open>ci\<close>, \<open>tag\<close> with value \<open>value\<close>, and \<open>env\<close>
  with the empty value.
\<close>

theorem C8_parseLabels:
  "parseLabels labelsStr = labels_of_words labelsStr
   \<and> concat (map (\<lambda>t. CHR '','' # t) (SplitSeq labelsStr (CHR '',''))) = CHR '','' # labelsStr
   \<and> list_all (\<lambda>t. CHR '','' \<notin> set t) (SplitSeq labelsStr (CHR '',''))
   \<and> leadingSpace (TrimSpace t) = 0 \<and> trailingSpace (TrimSpace t) = 0
   \<and> parseLabels ''ci,tag=value, ,env='' =
       [\<lparr>Key = ''ci'', Value = ''''\<rparr>, \<lparr>Key = ''tag'', Value = ''value''\<rparr>,
        \<lparr>Key = ''env'', Value = ''''\<rparr>]"
  by (intro conjI parseLabels_words SplitSeq_join SplitSeq_no_sep parseLabels_example
      TrimSpace_no_space[THEN conjunct1] TrimSpace_no_space[THEN conjunct2])

lemma NewReporter_slash:
  "\<not> HasSuffix e ''/'' \<Longrightarrow> NewReporter (e @ ''/'') k i d l b = NewReporter e k i d l b"
  by (simp add: NewReporter_def TrimSuffix_slash_append TrimSuffix_no_slash)

lemma createSession_urls:
  "list_all (\<lambda>q. req_url q = sessionsURL r) (requests (snd (snd (createSession ev r))))"
  by (simp add: createSession_def Let_def httpRequest_def
      split: option.splits http_result.splits sum.splits)

lemma createSession_sends:
  assumes "json_Marshal ev (SessionBody (sessionRequest r)) = None"
      and "http_NewRequest ev (sessionsURL r) = None"
  shows "map req_url (requests (snd (snd (createSession ev r)))) = [sessionsURL r]"
  by (simp add: createSession_send[OF assms] sessionHttpRequest_def httpRequest_def
      split: http_result.splits sum.splits)

lemma submitResults_urls:
  "list_all (\<lambda>q. req_url q = testcasesURL r) (requests (snd (submitResults ev r ts)))"
  by (simp add: submitResults_def Let_def httpRequest_def
      split: option.splits http_result.splits)

lemma submitResults_sends:
  assumes "caseCount ts \<noteq> 0"
      and "json_Marshal ev (TestcasesBody \<lparr> Testcases = buildTestcases r ts \<rparr>) = None"
      and "http_NewRequest ev (testcasesURL r) = None"
  shows "map req_url (requests (snd (submitResults ev r ts))) = [testcasesURL r]"
proof -
  have "length (buildTestcases r ts) \<noteq> 0"
    using assms(1) by (simp add: buildTestcases_allCases length_allCases)
  then show ?thesis
    using assms(2,3)
    by (simp add: submitResults_def Let_def httpRequest_def split: http_result.splits)
qed

lemma NewReporter_urls:
  "sessionsURL (NewReporter (e @ ''/'') k i d l b) = e @ ''/api/v1/ingress/sessions''"
  "testcasesURL (NewReporter (e @ ''/'') k i d l b) = e @ ''/api/v1/ingress/testcases''"
  by (simp_all add: sessionsURL_def testcasesURL_def NewReporter_def TrimSuffix_slash_append)

text \<open>
  Claim C10.  \<open>NewReporter\<close> removes exactly one trailing \<open>/\<close> from the endpoint: an
  endpoint given with one more \<open>/\<close> at its end is stored without that one.  With the
  reporter made from \<open>e\<close> followed by \<open>/\<close>, every request of \<open>createSession\<close> has the
  URL \<open>e/api/v1/ingress/sessions\<close> and every request of \<open>submitResults\<close> has the URL
  \<open>e/api/v1/ingress/testcases\<close>; and each operation does make exactly one request, with
  that URL, when the library calls that build it succeed (and, for \<open>submitResults\<close>, the
  report has a case).  For an endpoint \<open>e\<close> that does not end in \<open>/\<close>, the reporter
  made from \<open>e\<close> itself is the same reporter, so the same holds for it: both ways of
  giving the endpoint produce the same request URLs in both network operations.
\<close>

theorem C10_trailing_slash:
  "endpoint (NewReporter (e @ ''/'') k i d l b) = e
   \<and> list_all (\<lambda>q. req_url q = e @ ''/api/v1/ingress/sessions'')
       (requests (snd (snd (createSession ev (NewReporter (e @ ''/'') k i d l b)))))
   \<and> list_all (\<lambda>q. req_url q = e @ ''/api/v1/ingress/testcases'')
       (requests (snd (submitResults ev (NewReporter (e @ ''/'') k i d l b) ts)))
   \<and> (json_Marshal ev (SessionBody (sessionRequest (NewReporter (e @ ''/'') k i d l b))) = None \<and>
      http_NewRequest ev (e @ ''/api/v1/ingress/sessions'') = None \<longrightarrow>
        map req_url (requests (snd (snd (createSession ev (NewReporter (e @ ''/'') k i d l b))))) =
          [e @ ''/api/v1/ingress/sessions''])
   \<and> (caseCount ts \<noteq> 0 \<and>
      json_Marshal ev (TestcasesBody
        \<lparr> Testcases = buildTestcases (NewReporter (e @ ''/'') k i d l b) ts \<rparr>) = None \<and>
      http_NewRequest ev (e @ ''/api/v1/ingress/testcases'') = None \<longrightarrow>
        map req_url (requests (snd (submitResults ev (NewReporter (e @ ''/'') k i d l b) ts))) =
          [e @ ''/api/v1/ingress/testcases''])
   \<and> (\<not> HasSuffix e ''/'' \<longrightarrow>
        endpoint (NewReporter e k i d l b) = e
      \<and> sessionsURL (NewReporter (e @ ''/'') k i d l b) = e @ ''/api/v1/ingress/sessions''
      \<and> sessionsURL (NewReporter e k i d l b) = e @ ''/api/v1/ingress/sessions''
      \<and> testcasesURL (NewReporter (e @ ''/'') k i d l b) = e @ ''/api/v1/ingress/testcases''
      \<and> testcasesURL (NewReporter e k i d l b) = e @ ''/api/v1/ingress/testcases''
      \<and> createSession ev (NewReporter (e @ ''/'') k i d l b) =
          createSession ev (NewReporter e k i d l b)
      \<and> submitResults ev (NewReporter (e @ ''/'') k i d l b) ts =
          submitResults ev (NewReporter e k i d l b) ts
      \<and> list_all (\<lambda>q. req_url q = e @ ''/api/v1/ingress/sessions'')
          (requests (snd (snd (createSession ev (NewReporter e k i d l b)))))
      \<and> list_all (\<lambda>q. req_url q = e @ ''/api/v1/ingress/testcases'')
          (requests (snd (submitResults ev (NewReporter e k i d l b) ts)))
      \<and> (json_Marshal ev (SessionBody (sessionRequest (NewReporter e k i d l b))) = None \<and>
         http_NewRequest ev (e @ ''/api/v1/ingress/sessions'') = None \<longrightarrow>
           map req_url (requests (snd (snd (createSession ev (NewReporter e k i d l b))))) =
             [e @ ''/api/v1/ingress/sessions''])
      \<and> (caseCount ts \<noteq> 0 \<and>
         json_Marshal ev (TestcasesBody
           \<lparr> Testcases = buildTestcases (NewReporter e k i d l b) ts \<rparr>) = None \<and>
         http_NewRequest ev (e @ ''/api/v1/ingress/testcases'') = None \<longrightarrow>
           map req_url (requests (snd (submitResults ev (NewReporter e k i d l b) ts))) =
             [e @ ''/api/v1/ingress/testcases'']))"
proof -
  let ?R = "NewReporter (e @ ''/'') k i d l b"
  have A: "endpoint ?R = e"
    by (simp add: NewReporter_def TrimSuffix_slash_append)
  have B: "list_all (\<lambda>q. req_url q = e @ ''/api/v1/ingress/sessions'')
       (requests (snd (snd (createSession ev ?R))))"
    using createSession_urls[of ?R ev] by (simp only: NewReporter_urls)
  have C: "list_all (\<lambda>q. req_url q = e @ ''/api/v1/ingress/testcases'')
       (requests (snd (submitResults ev ?R ts)))"
    using submitResults_urls[of ?R ev ts] by (simp only: NewReporter_urls)
  have D: "map req_url (requests (snd (snd (createSession ev ?R)))) =
          [e @ ''/api/v1/ingress/sessions'']"
    if "json_Marshal ev (SessionBody (sessionRequest ?R)) = None"
      and "http_NewRequest ev (e @ ''/api/v1/ingress/sessions'') = None"
  proof -
    have "http_NewRequest ev (sessionsURL ?R) = None"
      using that(2) by (simp only: NewReporter_urls)
    from createSession_sends[OF that(1) this] show ?thesis
      by (simp only: NewReporter_urls)
  qed
  have E: "map req_url (requests (snd (submitResults ev ?R ts))) =
          [e @ ''/api/v1/ingress/testcases'']"
    if "caseCount ts \<noteq> 0"
      and "json_Marshal ev (TestcasesBody \<lparr> Testcases = buildTestcases ?R ts \<rparr>) = None"
      and "http_NewRequest ev (e @ ''/api/v1/ingress/testcases'') = None"
  proof -
    have "http_NewRequest ev (testcasesURL ?R) = None"
      using that(3) by (simp only: NewReporter_urls)
    from submitResults_sends[OF that(1) that(2) this] show ?thesis
      by (simp only: NewReporter_urls)
  qed
  have F: "NewReporter e k i d l b = ?R" "endpoint (NewReporter e k i d l b) = e"
    if "\<not> HasSuffix e ''/''"
    using that A by (simp_all add: NewReporter_slash)
  show ?thesis
  proof (intro conjI impI)
    show "endpoint ?R = e" by (rule A)
    show "list_all (\<lambda>q. req_url q = e @ ''/api/v1/ingress/sessions'')
       (requests (snd (snd (createSession ev ?R))))" by (rule B)
    show "list_all (\<lambda>q. req_url q = e @ ''/api/v1/ingress/testcases'')
       (requests (snd (submitResults ev ?R ts)))" by (rule C)
  next
    assume "json_Marshal ev (SessionBody (sessionRequest ?R)) = None \<and>
      http_NewRequest ev (e @ ''/api/v1/ingress/sessions'') = None"
    then show "map req_url (requests (snd (snd (createSession ev ?R)))) =
          [e @ ''/api/v1/ingress/sessions'']"
      using D by blast
  next
    assume "caseCount ts \<noteq> 0 \<and>
      json_Marshal ev (TestcasesBody \<lparr> Testcases = buildTestcases ?R ts \<rparr>) = None \<and>
      http_NewRequest ev (e @ ''/api/v1/ingress/testcases'') = None"
    then show "map req_url (requests (snd (submitResults ev ?R ts))) =
          [e @ ''/api/v1/ingress/testcases'']"
      using E by blast
  next
    assume n: "\<not> HasSuffix e ''/''"
    show "endpoint (NewReporter e k i d l b) = e" by (rule F(2)[OF n])
    show "sessionsURL ?R = e @ ''/api/v1/ingress/sessions''" by (rule NewReporter_urls)
    show "sessionsURL (NewReporter e k i d l b) = e @ ''/api/v1/ingress/sessions''"
      by (simp only: F(1)[OF n] NewReporter_urls)
    show "testcasesURL ?R = e @ ''/api/v1/ingress/testcases''" by (rule NewReporter_urls)
    show "testcasesURL (NewReporter e k i d l b) = e @ ''/api/v1/ingress/testcases''"
      by (simp only: F(1)[OF n] NewReporter_urls)
    show "createSession ev ?R = createSession ev (NewReporter e k i d l b)"
      by (simp only: F(1)[OF n])
    show "submitResults ev ?R ts = submitResults ev (NewReporter e k i d l b) ts"
      by (simp only: F(1)[OF n])
    show "list_all (\<lambda>q. req_url q = e @ ''/api/v1/ingress/sessions'')
          (requests (snd (snd (createSession ev (NewReporter e k i d l b)))))"
      using B by (simp only: F(1)[OF n])
    show "list_all (\<lambda>q. req_url q = e @ ''/api/v1/ingress/testcases'')
          (requests (snd (submitResults ev (NewReporter e k i d l b) ts)))"
      using C by (simp only: F(1)[OF n])
  next
    assume n: "\<not> HasSuffix e ''/''"
    assume h: "json_Marshal ev (SessionBody (sessionRequest (NewReporter e k i d l b))) = None \<and>
         http_NewRequest ev (e @ ''/api/v1/ingress/sessions'') = None"
    have m: "json_Marshal ev (SessionBody (sessionRequest ?R)) = None"
      using h[THEN conjunct1] by (simp only: F(1)[OF n])
    have "map req_url (requests (snd (snd (createSession ev ?R)))) =
             [e @ ''/api/v1/ingress/sessions'']"
      by (rule D[OF m h[THEN conjunct2]])
    then show "map req_url (requests (snd (snd (createSession ev (NewReporter e k i d l b))))) =
             [e @ ''/api/v1/ingress/sessions'']"
      by (simp only: F(1)[OF n])
  next
    assume n: "\<not> HasSuffix e ''/''"
    assume h: "caseCount ts \<noteq> 0 \<and>
         json_Marshal ev (TestcasesBody
           \<lparr> Testcases = buildTestcases (NewReporter e k i d l b) ts \<rparr>) = None \<and>
         http_NewRequest ev (e @ ''/api/v1/ingress/testcases'') = None"
    have m: "json_Marshal ev (TestcasesBody \<lparr> Testcases = buildTestcases ?R ts \<rparr>) = None"
      using h[THEN conjunct2, THEN conjunct1] by (simp only: F(1)[OF n])
    have "map req_url (requests (snd (submitResults ev ?R ts))) =
             [e @ ''/api/v1/ingress/testcases'']"
      by (rule E[OF h[THEN conjunct1] m h[THEN conjunct2, THEN conjunct2]])
    then show "map req_url (requests (snd (submitResults ev (NewReporter e k i d l b) ts))) =
             [e @ ''/api/v1/ingress/testcases'']"
      by (simp only: F(1)[OF n])
  qed
qed

theorem C10_trailing_slash_witness:
  "\<not> HasSuffix ''http://h'' ''/''
   \<and> caseCount demoReport = 2
   \<and> endpoint (NewReporter ''http://h/'' ''key'' '''' '''' [] None) = ''http://h''
   \<and> endpoint (NewReporter ''http://h'' ''key'' '''' '''' [] None) = ''http://h''
   \<and> endpoint (NewReporter ''http://h//'' ''key'' '''' '''' [] None) = ''http://h/''
   \<and> map req_url (requests (snd (snd (createSession demoEnv
         (NewReporter ''http://h/'' ''key'' '''' '''' [] None))))) =
       [''http://h/api/v1/ingress/sessions'']
   \<and> map req_url (requests (snd (snd (createSession demoEnv
         (NewReporter ''http://h'' ''key'' '''' '''' [] None))))) =
       [''http://h/api/v1/ingress/sessions'']
   \<and> map req_url (requests (snd (submitResults demoEnv
         (NewReporter ''http://h/'' ''key'' '''' '''' [] None) demoReport))) =
       [''http://h/api/v1/ingress/testcases'']
   \<and> map req_url (requests (snd (submitResults demoEnv
         (NewReporter ''http://h'' ''key'' '''' '''' [] None) demoReport))) =
       [''http://h/api/v1/ingress/testcases'']"
proof -
  have h: "\<not> HasSuffix ''http://h'' ''/''"
    by (simp add: HasSuffix_def)
  have c: "caseCount demoReport = 2"
    by (simp add: caseCount_def demoReport_def)
  have m: "json_Marshal demoEnv x = None" "http_NewRequest demoEnv u = None" for x u
    by (simp_all add: demoEnv_def)
  show ?thesis
    using h c
      C10_trailing_slash[of "''http://h''" "''key''" "''''" "''''" "[]" None demoEnv demoReport]
      C10_trailing_slash[of "''http://h/''" "''key''" "''''" "''''" "[]" None demoEnv demoReport]
    by (simp add: m)
qed

text \<open>
  Claim C9.  When the two library calls that precede the sending succeed, \<open>createSession\<close>
  sends exactly one request, whose body is the session request; its description is
  \<open>JUnit XML test report\<close> when the reporter has the empty description, and the
  reporter's description unchanged otherwise.
\<close>

theorem C9_default_description:
  assumes "json_Marshal ev (SessionBody (sessionRequest r)) = None"
      and "http_NewRequest ev (sessionsURL r) = None"
  shows "requests (snd (snd (createSession ev r))) = [sessionHttpRequest r]
       \<and> req_body (sessionHttpRequest r) = SessionBody (sessionRequest r)
       \<and> (sessionDescription r = '''' \<longrightarrow>
            Description (sessionRequest r) = ''JUnit XML test report'')
       \<and> (sessionDescription r \<noteq> '''' \<longrightarrow>
            Description (sessionRequest r) = sessionDescription r)"
proof -
  have "requests (snd (snd (createSession ev r))) = [sessionHttpRequest r]"
    by (simp add: createSession_send[OF assms] split: http_result.splits sum.splits)
  moreover have "req_body (sessionHttpRequest r) = SessionBody (sessionRequest r)"
    by (simp add: sessionHttpRequest_def httpRequest_def)
  ultimately show ?thesis
    by (simp add: sessionRequest_def Let_def)
qed

theorem C9_default_description_witness:
  "json_Marshal demoEnv (SessionBody (sessionRequest demoReporter)) = None
   \<and> http_NewRequest demoEnv (sessionsURL demoReporter) = None
   \<and> sessionDescription demoReporter = ''''
   \<and> sessionDescription (demoReporter\<lparr>sessionDescription := ''nightly''\<rparr>) \<noteq> ''''
   \<and> map (\<lambda>q. case req_body q of SessionBody b \<Rightarrow> Description b | TestcasesBody _ \<Rightarrow> '''')
       (requests (snd (snd (createSession demoEnv demoReporter)))) = [''JUnit XML test report'']
   \<and> map (\<lambda>q. case req_body q of SessionBody b \<Rightarrow> Description b | TestcasesBody _ \<Rightarrow> '''')
       (requests (snd (snd (createSession demoEnv
          (demoReporter\<lparr>sessionDescription := ''nightly''\<rparr>))))) = [''nightly'']"
proof -
  have m: "json_Marshal demoEnv (SessionBody (sessionRequest r)) = None" for r
    by (simp add: demoEnv_def)
  have n: "http_NewRequest demoEnv (sessionsURL r) = None" for r
    by (simp add: demoEnv_def)
  have d: "sessionDescription demoReporter = ''''"
    by (simp add: demoReporter_eq)
  show ?thesis
    using m n d C9_default_description[OF m n, of demoReporter]
      C9_default_description[OF m n, of "demoReporter\<lparr>sessionDescription := ''nightly''\<rparr>"]
    by simp
qed

section \<open>The resolved session identifier\<close>

lemma run_submitted:
  assumes "parseBaggage ev (sessionBaggageFlag c) = Inr b"
      and "createSession ev (flagsReporter c b) = (None, r', tr1)"
  shows "list_all (\<lambda>q. SessionId q = sessionId r') (submitted (snd (run ev c)))"
proof -
  have s1: "submitted tr1 = []"
    using createSession_success[of ev "flagsReporter c b"] assms(2)
    by (auto simp: submitted_def sessionHttpRequest_def httpRequest_def)
  have s2: "submitted (snd (readInput ev f)) = []" for f
    by (simp add: readInput_trace submitted_def)
  have app: "submitted (t @ t') = submitted t @ submitted t'" for t t'
    by (simp add: submitted_def)
  have s3: "list_all (\<lambda>q. SessionId q = sessionId r') (submitted tr3)"
    if "submitResults ev r' ts = (e, tr3)" for ts e tr3
    using submitResults_submitted[of r' ev ts] that by simp
  show ?thesis
    using s1 s2[of "xmlFileFlag c"]
    by (auto simp: run_createSession_ok[OF assms] app
        split: prod.splits sum.splits option.splits dest: s3)
qed

text \<open>
  Claim C7.  When \<open>createSession\<close> succeeds, the server answered Created with a body
  that decodes to a session response; the reporter's session identifier is afterwards the
  identifier of that response, whatever identifier the caller supplied, and every record
  that \<open>submitResults\<close> then builds, and every record submitted in a run of the pipeline,
  carries exactly that identifier.
\<close>

theorem C7_resolved_session_id:
  assumes "fst (createSession ev r) = None"
  shows "\<exists>body resp.
           client_Do ev (sessionHttpRequest r) = Response StatusCreated body
         \<and> json_Decode ev body = Inr resp
         \<and> sessionId (fst (snd (createSession ev r))) = SessionResponse_Id resp
         \<and> list_all (\<lambda>q. SessionId q = SessionResponse_Id resp)
             (buildTestcases (fst (snd (createSession ev r))) testsuites)
         \<and> list_all (\<lambda>q. SessionId q = SessionResponse_Id resp)
             (submitted (snd (submitResults ev (fst (snd (createSession ev r))) testsuites)))
         \<and> (r = flagsReporter c b \<and> parseBaggage ev (sessionBaggageFlag c) = Inr b \<longrightarrow>
              list_all (\<lambda>q. SessionId q = SessionResponse_Id resp) (submitted (snd (run ev c))))"
proof -
  obtain body resp where
    d: "client_Do ev (sessionHttpRequest r) = Response StatusCreated body" and
    j: "json_Decode ev body = Inr resp" and
    cs: "createSession ev r =
           (None, r\<lparr>sessionId := SessionResponse_Id resp\<rparr>,
            [HttpDo (sessionHttpRequest r), Log (CreatedSession (SessionResponse_Id resp))])"
    using createSession_success[OF assms] by blast
  let ?r' = "r\<lparr>sessionId := SessionResponse_Id resp\<rparr>"
  have b: "list_all (\<lambda>q. SessionId q = SessionResponse_Id resp) (buildTestcases ?r' testsuites)"
    using buildTestcases_SessionId[of ?r' testsuites] by simp
  have s: "list_all (\<lambda>q. SessionId q = SessionResponse_Id resp)
             (submitted (snd (submitResults ev ?r' testsuites)))"
    using submitResults_submitted[of ?r' ev testsuites] by simp
  have p: "list_all (\<lambda>q. SessionId q = SessionResponse_Id resp) (submitted (snd (run ev c)))"
    if "r = flagsReporter c b" and "parseBaggage ev (sessionBaggageFlag c) = Inr b"
    using run_submitted[OF that(2), of ?r'] cs that(1) by simp
  from d j b s p show ?thesis
    by (simp add: cs)
qed

lemma demo_flagsReporter: "flagsReporter (demoFlags\<lparr>xmlFileFlag := f\<rparr>) None = demoReporter"
  by (simp add: demoReporter_def flagsReporter_def demoFlags_def)

lemma demo_parseBaggage_file:
  "parseBaggage demoEnv (sessionBaggageFlag (demoFlags\<lparr>xmlFileFlag := f\<rparr>)) = Inr None"
  by (simp add: parseBaggage_def demoFlags_def)

lemma demo_unmarshal: "unmarshalTestSuites demoDoc = Inr demoReport"
  by code_simp

lemma demo_buildTestcases:
  "buildTestcases (demoReporter\<lparr>sessionId := ''s-1''\<rparr>) demoReport = demoRecords"
  by (simp add: buildTestcases_def demoReport_def demoRecords_def testcaseRequest_def
      statusOutput_def sprintf_Failure_def)

lemma demo_submitResults:
  "submitResults demoEnv (demoReporter\<lparr>sessionId := ''s-1''\<rparr>) demoReport =
     (None, [HttpDo demoSubmission, Log (Submitted 2)])"
proof -
  have u: "testcasesURL (demoReporter\<lparr>sessionId := ''s-1''\<rparr>) = ''http://h/api/v1/ingress/testcases''"
    by (simp add: testcasesURL_def demoReporter_eq)
  have l: "length demoRecords = 2" "demoRecords \<noteq> []" by (simp_all add: demoRecords_def)
  have d: "client_Do demoEnv demoSubmission = Response 201 ''''"
    by (simp add: demoEnv_def demoSubmission_def isSubmission_def httpRequest_def)
  have m: "json_Marshal demoEnv b = None" "http_NewRequest demoEnv v = None" for b v
    by (simp_all add: demoEnv_def)
  show ?thesis
    by (simp add: submitResults_def demo_buildTestcases u l m d[unfolded demoSubmission_def]
        demoSubmission_def StatusCreated_def)
qed

lemma demo_run:
  "run demoEnv demoFlags =
     (None,
      [HttpDo (sessionHttpRequest demoReporter), Log (CreatedSession ''s-1''),
       FileRead ''report.xml'', HttpDo demoSubmission, Log (Submitted 2)])"
proof -
  have rd: "readInput demoEnv ''report.xml'' = (Inr ''report'', [FileRead ''report.xml''])"
    by (simp add: readInput_def demoEnv_def)
  have um: "xml_Unmarshal demoEnv ''report'' = unmarshalTestSuites demoDoc"
    by (simp add: xml_Unmarshal_def demoEnv_def)
  have x: "xmlFileFlag demoFlags = ''report.xml''" by (simp add: demoFlags_def)
  have cs: "createSession demoEnv (flagsReporter demoFlags None) =
     (None, demoReporter\<lparr>sessionId := ''s-1''\<rparr>,
      [HttpDo (sessionHttpRequest demoReporter), Log (CreatedSession ''s-1'')])"
    using demo_createSession by (simp add: demoReporter_def)
  show ?thesis
    by (simp add: run_createSession_ok[OF demo_parseBaggage cs] x rd um demo_unmarshal
        demo_submitResults)
qed

theorem C7_resolved_session_id_witness:
  "fst (createSession demoEnv demoReporter) = None
   \<and> sessionId demoReporter = ''client-id''
   \<and> sessionId (fst (snd (createSession demoEnv demoReporter))) = ''s-1''
   \<and> map SessionId (buildTestcases (fst (snd (createSession demoEnv demoReporter))) demoReport)
       = [''s-1'', ''s-1'']
   \<and> list_all (\<lambda>q. SessionId q = ''s-1'') (submitted (snd (run demoEnv demoFlags)))
   \<and> length (submitted (snd (run demoEnv demoFlags))) = 2"
proof -
  have h: "fst (createSession demoEnv demoReporter) = None"
    by (simp add: demo_createSession)
  have d: "client_Do demoEnv (sessionHttpRequest demoReporter) = Response StatusCreated ''id=s-1''"
    by (simp add: demoEnv_def StatusCreated_def)
  have j: "json_Decode demoEnv ''id=s-1'' = Inr \<lparr> SessionResponse_Id = ''s-1'' \<rparr>"
    by (simp add: demoEnv_def)
  have l: "length (submitted (snd (run demoEnv demoFlags))) = 2"
    by (simp add: demo_run submitted_def demoSubmission_def httpRequest_def
        sessionHttpRequest_def demoRecords_def)
  have b: "map SessionId (buildTestcases (demoReporter\<lparr>sessionId := ''s-1''\<rparr>) demoReport)
       = [''s-1'', ''s-1'']"
    by (simp add: demo_buildTestcases demoRecords_def)
  have f: "demoReporter = flagsReporter demoFlags None"
    by (simp add: demoReporter_def)
  from C7_resolved_session_id[OF h, of demoReport demoFlags None]
  obtain resp where
    "json_Decode demoEnv ''id=s-1'' = Inr resp" and
    "sessionId (fst (snd (createSession demoEnv demoReporter))) = SessionResponse_Id resp" and
    "list_all (\<lambda>q. SessionId q = SessionResponse_Id resp) (submitted (snd (run demoEnv demoFlags)))"
    using d f demo_parseBaggage by auto
  moreover have "sessionId demoReporter = ''client-id''"
    by (simp add: demoReporter_eq)
  moreover have "fst (snd (createSession demoEnv demoReporter)) = demoReporter\<lparr>sessionId := ''s-1''\<rparr>"
    by (simp add: demo_createSession)
  ultimately show ?thesis
    using j h l b by simp
qed

section \<open>Failures of the session stage\<close>

lemma readInput_readEvent: "snd (readInput ev f) = [readEvent f]"
  by (simp add: readInput_trace readEvent_def)

lemma isRead_simps [simp]:
  "isRead (HttpDo q) = False" "isRead (Log l) = False"
  "isRead StdinRead = True" "isRead (FileRead p) = True"
  by (simp_all add: isRead_def)

lemma run_session_failed:
  assumes "parseBaggage ev (sessionBaggageFlag c) = Inr b"
      and "fst (createSession ev (flagsReporter c b)) = Some e"
  shows "fst (run ev c) = Some (Wrap ''create session'' e)"
    and "snd (run ev c) = snd (snd (createSession ev (flagsReporter c b)))"
    and "filter isSubmission (requests (snd (run ev c))) = []"
    and "filter isRead (snd (run ev c)) = []"
proof -
  note r = run_createSession_error[OF assms]
  show "fst (run ev c) = Some (Wrap ''create session'' e)" by (simp add: r)
  show "snd (run ev c) = snd (snd (createSession ev (flagsReporter c b)))" by (simp add: r)
  show "filter isSubmission (requests (snd (run ev c))) = []"
    using createSession_failure_trace[OF assms(2)] by (auto simp: r)
  show "filter isRead (snd (run ev c)) = []"
    using createSession_failure_trace[OF assms(2)] by (auto simp: r)
qed

text \<open>
  Claim C6.  Once the request could be built, \<open>createSession\<close> fails in three ways, each
  with an error of its own: on a transport failure (\<open>send session request\<close>), on a
  status other than Created (\<open>create session failed\<close>, with the status and the raw
  response body), and on a Created response whose body does not decode
  (\<open>decode session response\<close>).  Whenever \<open>createSession\<close> fails, \<open>run\<close> returns that
  error wrapped as \<open>create session\<close>, does nothing after the session stage, and makes no
  submission request.
\<close>

theorem C6_session_failures_abort:
  "(json_Marshal ev (SessionBody (sessionRequest r)) = None \<and>
    http_NewRequest ev (sessionsURL r) = None \<longrightarrow>
      (client_Do ev (sessionHttpRequest r) = TransportError msg \<longrightarrow>
         createSession ev r =
           (Some (Wrap ''send session request'' (LibError msg)), r, [HttpDo (sessionHttpRequest r)]))
    \<and> (client_Do ev (sessionHttpRequest r) = Response status body \<and> status \<noteq> StatusCreated \<longrightarrow>
         createSession ev r =
           (Some (StatusError ''create session failed'' status body), r,
            [HttpDo (sessionHttpRequest r)]))
    \<and> (client_Do ev (sessionHttpRequest r) = Response StatusCreated body \<and>
        json_Decode ev body = Inl msg \<longrightarrow>
         createSession ev r =
           (Some (Wrap ''decode session response'' (LibError msg)), r,
            [HttpDo (sessionHttpRequest r)])))
   \<and> (parseBaggage ev (sessionBaggageFlag c) = Inr b \<and>
      fst (createSession ev (flagsReporter c b)) = Some e \<longrightarrow>
        fst (run ev c) = Some (Wrap ''create session'' e)
      \<and> snd (run ev c) = snd (snd (createSession ev (flagsReporter c b)))
      \<and> filter isSubmission (requests (snd (run ev c))) = [])"
proof (intro conjI impI)
  assume a: "json_Marshal ev (SessionBody (sessionRequest r)) = None \<and>
    http_NewRequest ev (sessionsURL r) = None"
  note s = createSession_send[OF a[THEN conjunct1] a[THEN conjunct2]]
  { assume "client_Do ev (sessionHttpRequest r) = TransportError msg"
    then show "createSession ev r =
           (Some (Wrap ''send session request'' (LibError msg)), r, [HttpDo (sessionHttpRequest r)])"
      by (simp add: s) }
  { assume "client_Do ev (sessionHttpRequest r) = Response status body \<and> status \<noteq> StatusCreated"
    then show "createSession ev r =
           (Some (StatusError ''create session failed'' status body), r,
            [HttpDo (sessionHttpRequest r)])"
      by (simp add: s) }
  { assume "client_Do ev (sessionHttpRequest r) = Response StatusCreated body \<and>
        json_Decode ev body = Inl msg"
    then show "createSession ev r =
           (Some (Wrap ''decode session response'' (LibError msg)), r,
            [HttpDo (sessionHttpRequest r)])"
      by (simp add: s) }
next
  assume a: "parseBaggage ev (sessionBaggageFlag c) = Inr b \<and>
      fst (createSession ev (flagsReporter c b)) = Some e"
  note f = run_session_failed[OF a[THEN conjunct1] a[THEN conjunct2]]
  show "fst (run ev c) = Some (Wrap ''create session'' e)" by (rule f)
  show "snd (run ev c) = snd (snd (createSession ev (flagsReporter c b)))" by (rule f)
  show "filter isSubmission (requests (snd (run ev c))) = []" by (rule f)
qed

theorem C6_session_failures_abort_witness:
  "run (demoEnv\<lparr>client_Do := \<lambda>q. TransportError ''connection refused''\<rparr>) demoFlags =
     (Some (Wrap ''create session'' (Wrap ''send session request'' (LibError ''connection refused''))),
      [HttpDo (sessionHttpRequest demoReporter)])
   \<and> run (demoEnv\<lparr>client_Do := \<lambda>q. Response 500 ''boom''\<rparr>) demoFlags =
     (Some (Wrap ''create session'' (StatusError ''create session failed'' 500 ''boom'')),
      [HttpDo (sessionHttpRequest demoReporter)])
   \<and> run (demoEnv\<lparr>json_Decode := \<lambda>b. Inl ''unexpected EOF''\<rparr>) demoFlags =
     (Some (Wrap ''create session'' (Wrap ''decode session response'' (LibError ''unexpected EOF''))),
      [HttpDo (sessionHttpRequest demoReporter)])
   \<and> filter isSubmission
       (requests (snd (run (demoEnv\<lparr>client_Do := \<lambda>q. Response 500 ''boom''\<rparr>) demoFlags))) = []"
proof -
  let ?e1 = "demoEnv\<lparr>client_Do := \<lambda>q. TransportError ''connection refused''\<rparr>"
  let ?e2 = "demoEnv\<lparr>client_Do := \<lambda>q. Response 500 ''boom''\<rparr>"
  let ?e3 = "demoEnv\<lparr>json_Decode := \<lambda>b. Inl ''unexpected EOF''\<rparr>"
  have m: "json_Marshal demoEnv x = None" "http_NewRequest demoEnv u = None" for x u
    by (simp_all add: demoEnv_def)
  have p: "parseBaggage ev (sessionBaggageFlag demoFlags) = Inr None" for ev
    by (simp add: parseBaggage_def demoFlags_def)
  have d3: "client_Do ?e3 (sessionHttpRequest demoReporter) = Response StatusCreated ''id=s-1''"
    by (simp add: demoEnv_def StatusCreated_def)
  have f: "flagsReporter demoFlags None = demoReporter" by (simp add: demoReporter_def)
  have n: "(500::int) \<noteq> StatusCreated" by (simp add: StatusCreated_def)
  have r1: "run ?e1 demoFlags =
     (Some (Wrap ''create session'' (Wrap ''send session request'' (LibError ''connection refused''))),
      [HttpDo (sessionHttpRequest demoReporter)])"
    using C6_session_failures_abort[of ?e1 demoReporter "''connection refused''" 0 "''''" demoFlags None
        "Wrap ''send session request'' (LibError ''connection refused'')"]
    by (simp add: m p f prod_eq_iff)
  have r2: "run ?e2 demoFlags =
     (Some (Wrap ''create session'' (StatusError ''create session failed'' 500 ''boom'')),
      [HttpDo (sessionHttpRequest demoReporter)])
     \<and> filter isSubmission (requests (snd (run ?e2 demoFlags))) = []"
    using C6_session_failures_abort[of ?e2 demoReporter "''''" 500 "''boom''" demoFlags None
        "StatusError ''create session failed'' 500 ''boom''"] n
    by (simp add: m p f prod_eq_iff)
  have r3: "run ?e3 demoFlags =
     (Some (Wrap ''create session'' (Wrap ''decode session response'' (LibError ''unexpected EOF''))),
      [HttpDo (sessionHttpRequest demoReporter)])"
    using C6_session_failures_abort[of ?e3 demoReporter "''unexpected EOF''" 0 "''id=s-1''" demoFlags None
        "Wrap ''decode session response'' (LibError ''unexpected EOF'')"] d3
    by (simp add: m p f prod_eq_iff)
  from r1 r2 r3 show ?thesis by simp
qed

section \<open>The order of the session request and the input\<close>

lemma demo_run_missing:
  "run demoEnv (demoFlags\<lparr>xmlFileFlag := ''missing.xml''\<rparr>) =
     (Some (Wrap ''read file missing.xml'' (LibError ''no such file or directory'')),
      [HttpDo (sessionHttpRequest demoReporter), Log (CreatedSession ''s-1''),
       FileRead ''missing.xml''])"
proof -
  have rd: "readInput demoEnv ''missing.xml'' =
      (Inl (Wrap ''read file missing.xml'' (LibError ''no such file or directory'')),
       [FileRead ''missing.xml''])"
    by (simp add: readInput_def demoEnv_def)
  have cs: "createSession demoEnv (flagsReporter (demoFlags\<lparr>xmlFileFlag := ''missing.xml''\<rparr>) None) =
     (None, demoReporter\<lparr>sessionId := ''s-1''\<rparr>,
      [HttpDo (sessionHttpRequest demoReporter), Log (CreatedSession ''s-1'')])"
    using demo_createSession by (simp add: demo_flagsReporter)
  show ?thesis
    by (simp add: run_createSession_ok[OF demo_parseBaggage_file cs] rd)
qed

lemma demo_run_broken:
  "run demoEnv (demoFlags\<lparr>xmlFileFlag := ''broken.xml''\<rparr>) =
     (Some (Wrap ''parse XML'' (LibError ''XML syntax error'')),
      [HttpDo (sessionHttpRequest demoReporter), Log (CreatedSession ''s-1''),
       FileRead ''broken.xml''])"
proof -
  have rd: "readInput demoEnv ''broken.xml'' = (Inr ''broken'', [FileRead ''broken.xml''])"
    by (simp add: readInput_def demoEnv_def)
  have um: "xml_Unmarshal demoEnv ''broken'' = Inl (LibError ''XML syntax error'')"
    by (simp add: xml_Unmarshal_def demoEnv_def)
  have cs: "createSession demoEnv (flagsReporter (demoFlags\<lparr>xmlFileFlag := ''broken.xml''\<rparr>) None) =
     (None, demoReporter\<lparr>sessionId := ''s-1''\<rparr>,
      [HttpDo (sessionHttpRequest demoReporter), Log (CreatedSession ''s-1'')])"
    using demo_createSession by (simp add: demo_flagsReporter)
  show ?thesis
    by (simp add: run_createSession_ok[OF demo_parseBaggage_file cs] rd um)
qed

text \<open>
  Claim C3 says that the input is read and parsed before the session request is issued,
  so that a read or parse failure aborts the run before any network call.  \<open>run\<close> calls
  \<open>createSession\<close> first (line 285) and reads the input afterwards (lines 289--307): in
  the example environment a run on a missing file, and a run on a file that is not
  well-formed, each fail after the session request has been made.
\<close>

theorem C3_counterexample:
  "fst (run demoEnv (demoFlags\<lparr>xmlFileFlag := ''missing.xml''\<rparr>)) =
     Some (Wrap ''read file missing.xml'' (LibError ''no such file or directory''))
   \<and> requests (snd (run demoEnv (demoFlags\<lparr>xmlFileFlag := ''missing.xml''\<rparr>))) =
       [sessionHttpRequest demoReporter]
   \<and> fst (run demoEnv (demoFlags\<lparr>xmlFileFlag := ''broken.xml''\<rparr>)) =
       Some (Wrap ''parse XML'' (LibError ''XML syntax error''))
   \<and> requests (snd (run demoEnv (demoFlags\<lparr>xmlFileFlag := ''broken.xml''\<rparr>))) =
       [sessionHttpRequest demoReporter]"
  by (simp add: demo_run_missing demo_run_broken)

text \<open>
  Claim C3, as the code has it.  The session request is issued before the input is
  acquired: if the session stage fails, no input is read; if it succeeds, the trace of
  the run starts with the session request and its log line, followed by the read of the
  input.  An input-read failure or a parse failure then aborts the run with that error,
  and the only request made is the session request: no submission request is issued.
\<close>

theorem C3_session_request_precedes_input:
  assumes "parseBaggage ev (sessionBaggageFlag c) = Inr b"
  shows "(fst (createSession ev (flagsReporter c b)) = Some e \<longrightarrow>
            filter isRead (snd (run ev c)) = [])
       \<and> (fst (createSession ev (flagsReporter c b)) = None \<longrightarrow>
            (\<exists>id rest. snd (run ev c) =
               HttpDo (sessionHttpRequest (flagsReporter c b)) # Log (CreatedSession id) #
               readEvent (xmlFileFlag c) # rest)
          \<and> (fst (readInput ev (xmlFileFlag c)) = Inl e' \<longrightarrow>
               fst (run ev c) = Some e'
             \<and> requests (snd (run ev c)) = [sessionHttpRequest (flagsReporter c b)])
          \<and> (fst (readInput ev (xmlFileFlag c)) = Inr xmlData \<and>
              xml_Unmarshal ev xmlData = Inl e' \<longrightarrow>
               fst (run ev c) = Some (Wrap ''parse XML'' e')
             \<and> requests (snd (run ev c)) = [sessionHttpRequest (flagsReporter c b)]))"
proof (intro conjI impI)
  assume "fst (createSession ev (flagsReporter c b)) = Some e"
  then show "filter isRead (snd (run ev c)) = []"
    by (rule run_session_failed(4)[OF assms])
next
  assume ok: "fst (createSession ev (flagsReporter c b)) = None"
  obtain resp :: SessionResponse where
    cs: "createSession ev (flagsReporter c b) =
           (None, (flagsReporter c b)\<lparr>sessionId := SessionResponse_Id resp\<rparr>,
            [HttpDo (sessionHttpRequest (flagsReporter c b)),
             Log (CreatedSession (SessionResponse_Id resp))])"
    using createSession_success[OF ok] by blast
  note r = run_createSession_ok[OF assms cs]
  obtain res where rd: "readInput ev (xmlFileFlag c) = (res, [readEvent (xmlFileFlag c)])"
    using readInput_readEvent[of ev "xmlFileFlag c"]
    by (cases "readInput ev (xmlFileFlag c)") simp
  show "\<exists>id rest. snd (run ev c) =
          HttpDo (sessionHttpRequest (flagsReporter c b)) # Log (CreatedSession id) #
          readEvent (xmlFileFlag c) # rest"
    by (simp add: r rd split: sum.splits prod.splits option.splits)
  { assume "fst (readInput ev (xmlFileFlag c)) = Inl e'"
    with rd have "run ev c =
        (Some e', [HttpDo (sessionHttpRequest (flagsReporter c b)),
                   Log (CreatedSession (SessionResponse_Id resp)), readEvent (xmlFileFlag c)])"
      by (simp add: r)
    then show "fst (run ev c) = Some e'"
      and "requests (snd (run ev c)) = [sessionHttpRequest (flagsReporter c b)]"
      by (simp_all add: readEvent_def) }
  { assume "fst (readInput ev (xmlFileFlag c)) = Inr xmlData \<and> xml_Unmarshal ev xmlData = Inl e'"
    with rd have "run ev c =
        (Some (Wrap ''parse XML'' e'),
         [HttpDo (sessionHttpRequest (flagsReporter c b)),
          Log (CreatedSession (SessionResponse_Id resp)), readEvent (xmlFileFlag c)])"
      by (simp add: r)
    then show "fst (run ev c) = Some (Wrap ''parse XML'' e')"
      and "requests (snd (run ev c)) = [sessionHttpRequest (flagsReporter c b)]"
      by (simp_all add: readEvent_def) }
qed

theorem C3_session_request_precedes_input_witness:
  "run demoEnv (demoFlags\<lparr>xmlFileFlag := ''missing.xml''\<rparr>) =
     (Some (Wrap ''read file missing.xml'' (LibError ''no such file or directory'')),
      [HttpDo (sessionHttpRequest demoReporter), Log (CreatedSession ''s-1''),
       FileRead ''missing.xml''])
   \<and> run demoEnv (demoFlags\<lparr>xmlFileFlag := ''broken.xml''\<rparr>) =
     (Some (Wrap ''parse XML'' (LibError ''XML syntax error'')),
      [HttpDo (sessionHttpRequest demoReporter), Log (CreatedSession ''s-1''),
       FileRead ''broken.xml''])
   \<and> filter isRead (snd (run (demoEnv\<lparr>client_Do := \<lambda>q. Response 500 ''boom''\<rparr>) demoFlags)) = []"
proof -
  let ?m = "demoFlags\<lparr>xmlFileFlag := ''missing.xml''\<rparr>"
  let ?b = "demoFlags\<lparr>xmlFileFlag := ''broken.xml''\<rparr>"
  let ?e2 = "demoEnv\<lparr>client_Do := \<lambda>q. Response 500 ''boom''\<rparr>"
  have ok: "fst (createSession demoEnv demoReporter) = None"
    by (simp add: demo_createSession)
  have rm: "fst (readInput demoEnv ''missing.xml'') =
      Inl (Wrap ''read file missing.xml'' (LibError ''no such file or directory''))"
    by (simp add: readInput_def demoEnv_def)
  have rb: "fst (readInput demoEnv ''broken.xml'') = Inr ''broken''"
    by (simp add: readInput_def demoEnv_def)
  have um: "xml_Unmarshal demoEnv ''broken'' = Inl (LibError ''XML syntax error'')"
    by (simp add: xml_Unmarshal_def demoEnv_def)
  have p: "parseBaggage ev (sessionBaggageFlag demoFlags) = Inr None" for ev
    by (simp add: parseBaggage_def demoFlags_def)
  have f: "flagsReporter demoFlags None = demoReporter" by (simp add: demoReporter_def)
  have bad: "fst (createSession ?e2 demoReporter) =
      Some (StatusError ''create session failed'' 500 ''boom'')"
    by (simp add: createSession_send demoEnv_def StatusCreated_def)
  have 1: "fst (run demoEnv ?m) =
      Some (Wrap ''read file missing.xml'' (LibError ''no such file or directory''))
    \<and> requests (snd (run demoEnv ?m)) = [sessionHttpRequest demoReporter]"
    using C3_session_request_precedes_input[OF demo_parseBaggage_file[of "''missing.xml''"],
        where e' = "Wrap ''read file missing.xml'' (LibError ''no such file or directory'')"]
      ok rm
    by (simp add: demo_flagsReporter)
  have 2: "fst (run demoEnv ?b) = Some (Wrap ''parse XML'' (LibError ''XML syntax error''))
    \<and> requests (snd (run demoEnv ?b)) = [sessionHttpRequest demoReporter]"
    using C3_session_request_precedes_input[OF demo_parseBaggage_file[of "''broken.xml''"],
        where e' = "LibError ''XML syntax error''" and xmlData = "''broken''"]
      ok rb um
    by (simp add: demo_flagsReporter)
  have 3: "filter isRead (snd (run ?e2 demoFlags)) = []"
    using C3_session_request_precedes_input[OF p[of ?e2],
        where e = "StatusError ''create session failed'' 500 ''boom''"] bad
    by (simp add: f)
  from 1 2 3 show ?thesis
    by (simp add: demo_run_missing demo_run_broken)
qed

section \<open>Malformed attribute values\<close>


















end
